theory Spec2Isabelle
  imports Complex_Main
begin

section \<open>Errors and tensors\<close>

text \<open>
  The Python exceptions the modelled code can raise. \<open>NaNResult\<close> is not an exception:
  it stands for a returned tensor that holds NaN (a division 0/0), which the reals
  cannot represent.
\<close>

datatype error =
  AssertionError | RuntimeError | IndexError | KeyError | ValueError | NameError
  | ZeroDivisionError | NaNResult

definition and_then :: "error + 'a \<Rightarrow> ('a \<Rightarrow> error + 'b) \<Rightarrow> error + 'b" where
  "and_then m f = (case m of Inl e \<Rightarrow> Inl e | Inr x \<Rightarrow> f x)"

definition assert_that :: "bool \<Rightarrow> error + unit" where
  "assert_that b = (if b then Inr () else Inl AssertionError)"

text \<open>
  A torch tensor: its shape and its elements in row-major order. A well-formed tensor
  holds as many elements as its shape says.
\<close>

record tensor =
  shape :: "nat list"
  data :: "real list"

definition wf_tensor :: "tensor \<Rightarrow> bool" where
  "wf_tensor t = (length (data t) = prod_list (shape t))"

definition chunks :: "nat \<Rightarrow> nat \<Rightarrow> 'a list \<Rightarrow> 'a list list" where
  "chunks k d xs = map (\<lambda>i. take d (drop (i * d) xs)) [0..<k]"

text \<open>A function applied to each of \<open>k\<close> consecutive blocks of \<open>d\<close> elements.\<close>

definition map_blocks :: "nat \<Rightarrow> nat \<Rightarrow> ('a list \<Rightarrow> 'b list) \<Rightarrow> 'a list \<Rightarrow> 'b list" where
  "map_blocks k d f xs = concat (map f (chunks k d xs))"

text \<open>The vectors along the last axis, in order.\<close>

definition rows :: "tensor \<Rightarrow> real list list" where
  "rows t = chunks (prod_list (butlast (shape t))) (last (shape t)) (data t)"

text \<open>\<open>t[n, m, :]\<close> of a tensor of shape (N, M, D).\<close>

definition particle :: "tensor \<Rightarrow> nat \<Rightarrow> nat \<Rightarrow> real list" where
  "particle t n m = take (shape t ! 2) (drop ((n * (shape t ! 1) + m) * (shape t ! 2)) (data t))"

text \<open>\<open>a + b\<close> for tensors of one shape (every use below follows an assertion of that).\<close>

definition tensor_add :: "tensor \<Rightarrow> tensor \<Rightarrow> tensor" where
  "tensor_add a b = \<lparr>shape = shape a, data = map2 (+) (data a) (data b)\<rparr>"

text \<open>\<open>t[..., lo:hi]\<close>: Python slices clamp at the end of the axis.\<close>

definition slice_last :: "nat \<Rightarrow> nat \<Rightarrow> tensor \<Rightarrow> tensor" where
  "slice_last lo hi t =
     \<lparr>shape = butlast (shape t) @ [min hi (last (shape t)) - min lo (last (shape t))],
      data = concat (map (\<lambda>r. take (hi - lo) (drop lo r)) (rows t))\<rparr>"

text \<open>\<open>torch.norm(t)\<close> with no \<open>dim\<close>: the 2-norm of all elements of the tensor.\<close>

definition torch_norm :: "tensor \<Rightarrow> real" where
  "torch_norm t = sqrt (sum_list (map (\<lambda>x. x * x) (data t)))"

text \<open>
  \<open>t[..., lo:hi] /= s\<close> for a scalar \<open>s\<close>. Dividing an element by zero gives inf or NaN in
  torch; here the slice is divided by its own norm, so a zero \<open>s\<close> over a non-empty slice
  is 0/0.
\<close>

definition div_slice_last :: "nat \<Rightarrow> nat \<Rightarrow> tensor \<Rightarrow> real \<Rightarrow> error + tensor" where
  "div_slice_last lo hi t s =
     (if s = 0 \<and> data (slice_last lo hi t) \<noteq> [] then Inl NaNResult
      else Inr \<lparr>shape = shape t,
                data = concat (map (\<lambda>r. take lo r @ map (\<lambda>x. x / s) (take (hi - lo) (drop lo r))
                                         @ drop hi r) (rows t))\<rparr>)"

text \<open>
  \<open>Normal(tensor([0.]), tensor(stddev)).sample((N, M))\<close>: shape (N, M, len(stddev)),
  element (n, m, d) is \<open>stddev[d]\<close> times a standard normal draw. The draws are the
  argument \<open>eps\<close>, one for every (n, m, d).
\<close>

definition sample_normal :: "real list \<Rightarrow> nat \<Rightarrow> nat \<Rightarrow> (nat \<Rightarrow> nat \<Rightarrow> nat \<Rightarrow> real) \<Rightarrow> tensor" where
  "sample_normal stddev N M eps =
     \<lparr>shape = [N, M, length stddev],
      data = concat (map (\<lambda>n. concat (map (\<lambda>m. map (\<lambda>d. stddev ! d * eps n m d)
                [0..<length stddev]) [0..<M])) [0..<N])\<rparr>"

section \<open>PandaSimpleDynamicsModel\<close>

definition default_state_noise_stddev :: "real list" where
  "default_state_noise_stddev = [0.05, 0.05]"

text \<open>The model holds nothing but its noise standard deviations.\<close>

definition PandaSimpleDynamicsModel_init :: "real list option \<Rightarrow> real list" where
  "PandaSimpleDynamicsModel_init state_noise_stddev =
     (case state_noise_stddev of Some s \<Rightarrow> s | None \<Rightarrow> default_state_noise_stddev)"

definition PandaSimple_forward ::
  "real list \<Rightarrow> tensor \<Rightarrow> 'c \<Rightarrow> bool \<Rightarrow> (nat \<Rightarrow> nat \<Rightarrow> nat \<Rightarrow> real) \<Rightarrow> error + tensor" where
  "PandaSimple_forward state_noise_stddev states_prev controls noisy eps =
     (case shape states_prev of
        [N, M, state_dim] \<Rightarrow>
          if state_dim \<noteq> length state_noise_stddev then Inl AssertionError
          else if \<not> noisy then Inr states_prev
          else
            let noise = sample_normal state_noise_stddev N M eps in
            if shape noise \<noteq> [N, M, state_dim] then Inl AssertionError
            else
              let states_new = tensor_add states_prev noise;
                  scale = torch_norm (slice_last 2 4 states_new)
              in div_slice_last 2 4 states_new scale
      | _ \<Rightarrow> Inl AssertionError)"

text \<open>\<open>cos^2 + sin^2\<close> of particle (n, m), read from state dimensions 2 and 3.\<close>

definition cos_sin_sq :: "tensor \<Rightarrow> nat \<Rightarrow> nat \<Rightarrow> real" where
  "cos_sin_sq t n m = (particle t n m ! 2)\<^sup>2 + (particle t n m ! 3)\<^sup>2"

section \<open>Tensor operations of torch\<close>

text \<open>
  \<open>t[:, np.newaxis, :]\<close> (\<open>k = 2\<close> slices) and \<open>t[:, np.newaxis, :, :]\<close> (\<open>k = 3\<close>):
  a new axis of size 1 after the first; indexing with more slices than the tensor has
  axes raises IndexError.
\<close>

definition newaxis1 :: "nat \<Rightarrow> tensor \<Rightarrow> error + tensor" where
  "newaxis1 k t =
     (if length (shape t) < k \<or> shape t = [] then Inl IndexError
      else Inr \<lparr>shape = hd (shape t) # 1 # tl (shape t), data = data t\<rparr>)"

text \<open>
  \<open>t.expand(N, M, F)\<close> of a tensor of three axes (every use below is on the result of
  \<open>t[:, np.newaxis, :]\<close> of a matrix): an axis of size 1 is repeated to the requested
  size, any other axis must have the requested size already.
\<close>

definition expand3 :: "tensor \<Rightarrow> nat \<Rightarrow> nat \<Rightarrow> nat \<Rightarrow> error + tensor" where
  "expand3 t N M F =
     (case shape t of
        [a, b, c] \<Rightarrow>
          if (a = N \<or> a = 1) \<and> (b = M \<or> b = 1) \<and> (c = F \<or> c = 1) then
            Inr \<lparr>shape = [N, M, F],
                 data = concat (map (\<lambda>n. concat (map (\<lambda>m. map (\<lambda>f.
                          data t ! (((if a = 1 then 0 else n) * b + (if b = 1 then 0 else m)) * c
                                    + (if c = 1 then 0 else f)))
                          [0..<F]) [0..<M])) [0..<N])\<rparr>
          else Inl RuntimeError
      | _ \<Rightarrow> Inl RuntimeError)"

text \<open>
  \<open>torch.cat(ts, dim=axis)\<close> along the last axis: in every use below the first tensor
  has \<open>axis + 1\<close> axes. The tensors must agree in the number of axes and in every axis but
  the last.
\<close>

definition torch_cat :: "tensor list \<Rightarrow> nat \<Rightarrow> error + tensor" where
  "torch_cat ts axis =
     (if ts = [] \<or> list_ex (\<lambda>t. length (shape t) \<noteq> axis + 1
                                \<or> butlast (shape t) \<noteq> butlast (shape (hd ts))) ts
      then Inl RuntimeError
      else Inr \<lparr>shape = butlast (shape (hd ts)) @ [sum_list (map (\<lambda>t. last (shape t)) ts)],
                data = concat (map (\<lambda>i. concat (map (\<lambda>t. rows t ! i) ts))
                                 [0..<prod_list (butlast (shape (hd ts)))])\<rparr>)"

text \<open>\<open>torch.squeeze(t, dim=axis)\<close>: drops the axis when its size is 1.\<close>

definition squeeze :: "tensor \<Rightarrow> nat \<Rightarrow> tensor" where
  "squeeze t axis =
     (if axis < length (shape t) \<and> shape t ! axis = 1
      then \<lparr>shape = take axis (shape t) @ drop (Suc axis) (shape t), data = data t\<rparr>
      else t)"

section \<open>Network layers\<close>

text \<open>
  The learned parameters of \<open>nn.Linear(in, out)\<close>: the weight, \<open>out\<close> rows of \<open>in\<close>
  entries, and the bias of \<open>out\<close> entries; of a residual block: those of its two inner
  layers; of \<open>nn.Conv2d\<close>: the weight indexed [out channel][in channel][row][column],
  and the bias.
\<close>

type_synonym linear_params = "real list list \<times> real list"
type_synonym res_linear_params = "linear_params \<times> linear_params"
type_synonym conv_params = "real list list list list \<times> real list"
type_synonym res_conv_params = "conv_params \<times> conv_params"

definition dot :: "real list \<Rightarrow> real list \<Rightarrow> real" where
  "dot w x = sum_list (map2 (*) w x)"

definition linear_row :: "nat \<Rightarrow> linear_params \<Rightarrow> real list \<Rightarrow> real list" where
  "linear_row out_features p x = map (\<lambda>j. dot (fst p ! j) x + snd p ! j) [0..<out_features]"

definition relu_row :: "real list \<Rightarrow> real list" where
  "relu_row x = map (max 0) x"

text \<open>A function applied to every vector along the last axis, giving \<open>out\<close> entries.\<close>

definition map_rows :: "nat \<Rightarrow> (real list \<Rightarrow> real list) \<Rightarrow> tensor \<Rightarrow> tensor" where
  "map_rows out f t =
     \<lparr>shape = butlast (shape t) @ [out],
      data = map_blocks (prod_list (butlast (shape t))) (last (shape t)) f (data t)\<rparr>"

text \<open>\<open>nn.Linear\<close> acts on the last axis, which must have \<open>in_features\<close> entries.\<close>

definition nn_Linear :: "nat \<Rightarrow> nat \<Rightarrow> linear_params \<Rightarrow> tensor \<Rightarrow> error + tensor" where
  "nn_Linear in_features out_features p t =
     (if shape t = [] \<or> last (shape t) \<noteq> in_features then Inl RuntimeError
      else Inr (map_rows out_features (linear_row out_features p) t))"

definition nn_ReLU :: "tensor \<Rightarrow> tensor" where
  "nn_ReLU t = \<lparr>shape = shape t, data = relu_row (data t)\<rparr>"

text \<open>
  \<open>resblocks.Linear(units)\<close> of the fannypack library: two linear layers of \<open>units\<close>
  features with an activation between them, the input added back, and an activation.
\<close>

definition resblocks_Linear :: "nat \<Rightarrow> res_linear_params \<Rightarrow> tensor \<Rightarrow> error + tensor" where
  "resblocks_Linear units p t =
     and_then (nn_Linear units units (fst p) t) (\<lambda>x.
     and_then (nn_Linear units units (snd p) (nn_ReLU x)) (\<lambda>x.
     Inr (nn_ReLU (tensor_add x t))))"

text \<open>
  One image (\<open>cin\<close> channels of H rows and W columns) through a convolution with zero
  padding and stride 1: pixel (c, y, x) of the padded image.
\<close>

definition padded :: "nat \<Rightarrow> nat \<Rightarrow> nat \<Rightarrow> real list \<Rightarrow> nat \<Rightarrow> nat \<Rightarrow> nat \<Rightarrow> real" where
  "padded p H W img c y x =
     (if p \<le> y \<and> y < H + p \<and> p \<le> x \<and> x < W + p
      then img ! (c * H * W + (y - p) * W + (x - p)) else 0)"

definition conv2d_image ::
  "nat \<Rightarrow> nat \<Rightarrow> nat \<Rightarrow> nat \<Rightarrow> conv_params \<Rightarrow> nat \<Rightarrow> nat \<Rightarrow> real list \<Rightarrow> real list" where
  "conv2d_image cin cout k p prm H W img =
     concat (map (\<lambda>oc. concat (map (\<lambda>i. map (\<lambda>j.
       snd prm ! oc +
       sum_list (concat (map (\<lambda>c. concat (map (\<lambda>di. map (\<lambda>dj.
         fst prm ! oc ! c ! di ! dj * padded p H W img c (i + di) (j + dj))
         [0..<k]) [0..<k])) [0..<cin])))
       [0..<W + 2 * p + 1 - k]) [0..<H + 2 * p + 1 - k])) [0..<cout])"

text \<open>
  \<open>nn.Conv2d(in_channels, out_channels, kernel_size, padding)\<close> on a batch of shape
  (N, C, H, W).
\<close>

definition nn_Conv2d ::
  "nat \<Rightarrow> nat \<Rightarrow> nat \<Rightarrow> nat \<Rightarrow> conv_params \<Rightarrow> tensor \<Rightarrow> error + tensor" where
  "nn_Conv2d in_channels out_channels kernel_size padding prm t =
     (case shape t of
        [N, C, H, W] \<Rightarrow>
          if C \<noteq> in_channels \<or> H + 2 * padding < kernel_size \<or> W + 2 * padding < kernel_size
          then Inl RuntimeError
          else Inr \<lparr>shape = [N, out_channels, H + 2 * padding + 1 - kernel_size,
                             W + 2 * padding + 1 - kernel_size],
                    data = map_blocks N (C * H * W)
                             (conv2d_image in_channels out_channels kernel_size padding prm H W)
                             (data t)\<rparr>
      | _ \<Rightarrow> Inl RuntimeError)"

text \<open>
  \<open>resblocks.Conv2d(channels)\<close> of the fannypack library, with its default kernel size 3
  and padding 1.
\<close>

definition resblocks_Conv2d :: "nat \<Rightarrow> res_conv_params \<Rightarrow> tensor \<Rightarrow> error + tensor" where
  "resblocks_Conv2d channels p t =
     and_then (nn_Conv2d channels channels 3 1 (fst p) t) (\<lambda>x.
     and_then (nn_Conv2d channels channels 3 1 (snd p) (nn_ReLU x)) (\<lambda>x.
     Inr (nn_ReLU (tensor_add x t))))"

text \<open>\<open>nn.Flatten()\<close>: all axes after the first become one.\<close>

definition nn_Flatten :: "tensor \<Rightarrow> error + tensor" where
  "nn_Flatten t =
     (case shape t of
        n # d # ds \<Rightarrow> Inr \<lparr>shape = [n, prod_list (d # ds)], data = data t\<rparr>
      | _ \<Rightarrow> Inl IndexError)"

section \<open>PandaDynamicsModel\<close>

text \<open>
  The model: its noise standard deviations, \<open>units\<close>, and the learned parameters of the
  layers of \<open>state_layers\<close>, \<open>control_layers\<close> and \<open>shared_layers\<close>, in order.
\<close>

record PandaDynamicsModel =
  dyn_state_noise_stddev :: "real list"
  dyn_units :: nat
  dyn_state_0 :: linear_params
  dyn_state_1 :: res_linear_params
  dyn_control_0 :: linear_params
  dyn_control_1 :: res_linear_params
  dyn_shared_0 :: res_linear_params
  dyn_shared_1 :: res_linear_params
  dyn_shared_2 :: res_linear_params
  dyn_shared_3 :: linear_params

definition dyn_state_dim :: nat where
  "dyn_state_dim = 2"

definition dyn_control_dim :: nat where
  "dyn_control_dim = 7"

definition dyn_state_layers :: "PandaDynamicsModel \<Rightarrow> tensor \<Rightarrow> error + tensor" where
  "dyn_state_layers P t =
     and_then (nn_Linear dyn_state_dim (dyn_units P div 2) (dyn_state_0 P) t)
       (resblocks_Linear (dyn_units P div 2) (dyn_state_1 P))"

definition dyn_control_layers :: "PandaDynamicsModel \<Rightarrow> tensor \<Rightarrow> error + tensor" where
  "dyn_control_layers P t =
     and_then (nn_Linear dyn_control_dim (dyn_units P div 2) (dyn_control_0 P) t)
       (resblocks_Linear (dyn_units P div 2) (dyn_control_1 P))"

definition dyn_shared_layers :: "PandaDynamicsModel \<Rightarrow> tensor \<Rightarrow> error + tensor" where
  "dyn_shared_layers P t =
     and_then (resblocks_Linear (dyn_units P) (dyn_shared_0 P) t) (\<lambda>x.
     and_then (resblocks_Linear (dyn_units P) (dyn_shared_1 P) x) (\<lambda>x.
     and_then (resblocks_Linear (dyn_units P) (dyn_shared_2 P) x)
       (nn_Linear (dyn_units P) dyn_state_dim (dyn_shared_3 P))))"

definition PandaDynamics_forward ::
  "PandaDynamicsModel \<Rightarrow> tensor \<Rightarrow> tensor \<Rightarrow> bool \<Rightarrow> (nat \<Rightarrow> nat \<Rightarrow> nat \<Rightarrow> real) \<Rightarrow> error + tensor" where
  "PandaDynamics_forward P states_prev controls noisy eps =
     (if length (shape states_prev) \<noteq> 3 then Inl AssertionError
      else if length (shape controls) \<noteq> 2 then Inl AssertionError
      else
        let N = shape states_prev ! 0; M = shape states_prev ! 1;
            state_dim = shape states_prev ! 2
        in
        and_then (dyn_control_layers P controls) (\<lambda>control_features.
        and_then (assert_that (shape control_features = [N, dyn_units P div 2])) (\<lambda>_.
        and_then (newaxis1 2 control_features) (\<lambda>control_features.
        and_then (expand3 control_features N M (dyn_units P div 2)) (\<lambda>control_features.
        and_then (assert_that (shape control_features = [N, M, dyn_units P div 2])) (\<lambda>_.
        and_then (dyn_state_layers P states_prev) (\<lambda>state_features.
        and_then (assert_that (shape state_features = [N, M, dyn_units P div 2])) (\<lambda>_.
        and_then (torch_cat [control_features, state_features] 2) (\<lambda>merged_features.
        and_then (assert_that (shape merged_features = [N, M, dyn_units P])) (\<lambda>_.
        and_then (dyn_shared_layers P merged_features) (\<lambda>state_update.
        and_then (assert_that (shape state_update = [N, M, state_dim])) (\<lambda>_.
        let states_new = tensor_add states_prev state_update in
        and_then (assert_that (shape states_new = [N, M, state_dim])) (\<lambda>_.
        if noisy then
          let noise = sample_normal (dyn_state_noise_stddev P) N M eps in
          and_then (assert_that (shape noise = [N, M, state_dim])) (\<lambda>_.
          Inr (tensor_add states_new noise))
        else Inr states_new)))))))))))))"

subsection \<open>The predicted delta, particle by particle\<close>

text \<open>
  What a residual block does to one vector, and the three embeddings of the dynamics
  model as functions of one vector: the control-feature embedding of one trajectory's
  control, the state-feature embedding of one particle, and the residual trunk on the
  two joined.
\<close>

definition res_linear_row :: "nat \<Rightarrow> res_linear_params \<Rightarrow> real list \<Rightarrow> real list" where
  "res_linear_row units p x =
     relu_row (map2 (+) (linear_row units (snd p) (relu_row (linear_row units (fst p) x))) x)"

definition control_embedding :: "PandaDynamicsModel \<Rightarrow> real list \<Rightarrow> real list" where
  "control_embedding P c =
     res_linear_row (dyn_units P div 2) (dyn_control_1 P)
       (linear_row (dyn_units P div 2) (dyn_control_0 P) c)"

definition state_embedding :: "PandaDynamicsModel \<Rightarrow> real list \<Rightarrow> real list" where
  "state_embedding P x =
     res_linear_row (dyn_units P div 2) (dyn_state_1 P)
       (linear_row (dyn_units P div 2) (dyn_state_0 P) x)"

definition residual_trunk :: "PandaDynamicsModel \<Rightarrow> real list \<Rightarrow> real list" where
  "residual_trunk P x =
     linear_row dyn_state_dim (dyn_shared_3 P)
       (res_linear_row (dyn_units P) (dyn_shared_2 P)
         (res_linear_row (dyn_units P) (dyn_shared_1 P)
           (res_linear_row (dyn_units P) (dyn_shared_0 P) x)))"

text \<open>
  The delta of particle (n, m): the trunk on the embedding of trajectory n's control
  joined with the embedding of the particle's own state.
\<close>

definition predicted_delta :: "PandaDynamicsModel \<Rightarrow> tensor \<Rightarrow> tensor \<Rightarrow> tensor" where
  "predicted_delta P states_prev controls =
     \<lparr>shape = shape states_prev,
      data = concat (map (\<lambda>n. concat (map (\<lambda>m.
               residual_trunk P (control_embedding P (rows controls ! n)
                                 @ state_embedding P (particle states_prev n m)))
               [0..<shape states_prev ! 1])) [0..<shape states_prev ! 0])\<rparr>"

section \<open>PandaMeasurementModel\<close>

record PandaMeasurementModel =
  meas_units :: nat
  meas_image_0 :: conv_params
  meas_image_2 :: res_conv_params
  meas_image_3 :: conv_params
  meas_image_6 :: linear_params
  meas_image_8 :: res_linear_params
  meas_pos_0 :: linear_params
  meas_pos_1 :: res_linear_params
  meas_sensors_0 :: linear_params
  meas_sensors_1 :: res_linear_params
  meas_state_0 :: linear_params
  meas_shared_0 :: linear_params
  meas_shared_2 :: res_linear_params
  meas_shared_3 :: res_linear_params
  meas_shared_4 :: linear_params

definition obs_pos_dim :: nat where
  "obs_pos_dim = 3"

definition obs_sensors_dim :: nat where
  "obs_sensors_dim = 7"

definition meas_state_dim :: nat where
  "meas_state_dim = 2"

definition observation_image_layers :: "PandaMeasurementModel \<Rightarrow> tensor \<Rightarrow> error + tensor" where
  "observation_image_layers P t =
     and_then (nn_Conv2d 1 3 3 1 (meas_image_0 P) t) (\<lambda>x.
     and_then (resblocks_Conv2d 3 (meas_image_2 P) (nn_ReLU x)) (\<lambda>x.
     and_then (nn_Conv2d 3 1 3 1 (meas_image_3 P) x) (\<lambda>x.
     and_then (nn_Flatten (nn_ReLU x)) (\<lambda>x.
     and_then (nn_Linear 1024 (meas_units P) (meas_image_6 P) x) (\<lambda>x.
     resblocks_Linear (meas_units P) (meas_image_8 P) (nn_ReLU x))))))"

definition observation_pos_layers :: "PandaMeasurementModel \<Rightarrow> tensor \<Rightarrow> error + tensor" where
  "observation_pos_layers P t =
     and_then (nn_Linear obs_pos_dim (meas_units P) (meas_pos_0 P) t)
       (resblocks_Linear (meas_units P) (meas_pos_1 P))"

definition observation_sensors_layers :: "PandaMeasurementModel \<Rightarrow> tensor \<Rightarrow> error + tensor" where
  "observation_sensors_layers P t =
     and_then (nn_Linear obs_sensors_dim (meas_units P) (meas_sensors_0 P) t)
       (resblocks_Linear (meas_units P) (meas_sensors_1 P))"

definition meas_state_layers :: "PandaMeasurementModel \<Rightarrow> tensor \<Rightarrow> error + tensor" where
  "meas_state_layers P t = nn_Linear meas_state_dim (meas_units P) (meas_state_0 P) t"

definition meas_shared_layers :: "PandaMeasurementModel \<Rightarrow> tensor \<Rightarrow> error + tensor" where
  "meas_shared_layers P t =
     and_then (nn_Linear (meas_units P * 4) (meas_units P) (meas_shared_0 P) t) (\<lambda>x.
     and_then (resblocks_Linear (meas_units P) (meas_shared_2 P) (nn_ReLU x)) (\<lambda>x.
     and_then (resblocks_Linear (meas_units P) (meas_shared_3 P) x)
       (nn_Linear (meas_units P) 1 (meas_shared_4 P))))"

text \<open>\<open>observations[key]\<close> of a Python dict.\<close>

definition getitem :: "(string \<rightharpoonup> 'v) \<Rightarrow> string \<Rightarrow> error + 'v" where
  "getitem d key = (case d key of None \<Rightarrow> Inl KeyError | Some v \<Rightarrow> Inr v)"

definition PandaMeasurement_forward ::
  "PandaMeasurementModel \<Rightarrow> (string \<rightharpoonup> tensor) \<Rightarrow> tensor \<Rightarrow> error + tensor" where
  "PandaMeasurement_forward P observations states =
     (if length (shape states) \<noteq> 3 then Inl AssertionError
      else
        let N = shape states ! 0; M = shape states ! 1 in
        and_then (getitem observations ''image'') (\<lambda>image.
        and_then (newaxis1 3 image) (\<lambda>image.
        and_then (observation_image_layers P image) (\<lambda>image_features.
        and_then (getitem observations ''gripper_pos'') (\<lambda>gripper_pos.
        and_then (observation_pos_layers P gripper_pos) (\<lambda>pos_features.
        and_then (getitem observations ''gripper_sensors'') (\<lambda>gripper_sensors.
        and_then (observation_sensors_layers P gripper_sensors) (\<lambda>sensors_features.
        and_then (torch_cat [image_features, pos_features, sensors_features] 1)
          (\<lambda>observation_features.
        and_then (newaxis1 2 observation_features) (\<lambda>observation_features.
        and_then (expand3 observation_features N M (meas_units P * 3))
          (\<lambda>observation_features.
        and_then (assert_that (shape observation_features = [N, M, meas_units P * 3])) (\<lambda>_.
        and_then (meas_state_layers P states) (\<lambda>state_features.
        and_then (assert_that (shape state_features = [N, M, meas_units P])) (\<lambda>_.
        and_then (torch_cat [observation_features, state_features] 2) (\<lambda>merged_features.
        and_then (assert_that (shape merged_features = [N, M, meas_units P * 4])) (\<lambda>_.
        and_then (meas_shared_layers P merged_features) (\<lambda>log_likelihoods.
        and_then (assert_that (shape log_likelihoods = [N, M, 1])) (\<lambda>_.
        Inr (squeeze log_likelihoods 2)))))))))))))))))))"

subsection \<open>The log-likelihood, particle by particle\<close>

text \<open>
  The layers of the measurement model on one image, one position vector, one sensor
  vector and one particle.
\<close>

definition res_conv_image :: "nat \<Rightarrow> res_conv_params \<Rightarrow> nat \<Rightarrow> nat \<Rightarrow> real list \<Rightarrow> real list" where
  "res_conv_image channels p H W img =
     relu_row (map2 (+)
       (conv2d_image channels channels 3 1 (snd p) H W
          (relu_row (conv2d_image channels channels 3 1 (fst p) H W img))) img)"

definition image_features :: "PandaMeasurementModel \<Rightarrow> nat \<Rightarrow> nat \<Rightarrow> real list \<Rightarrow> real list" where
  "image_features P H W img =
     res_linear_row (meas_units P) (meas_image_8 P)
       (relu_row (linear_row (meas_units P) (meas_image_6 P)
         (relu_row (conv2d_image 3 1 3 1 (meas_image_3 P) H W
           (res_conv_image 3 (meas_image_2 P) H W
             (relu_row (conv2d_image 1 3 3 1 (meas_image_0 P) H W img)))))))"

definition pos_features :: "PandaMeasurementModel \<Rightarrow> real list \<Rightarrow> real list" where
  "pos_features P x =
     res_linear_row (meas_units P) (meas_pos_1 P) (linear_row (meas_units P) (meas_pos_0 P) x)"

definition sensors_features :: "PandaMeasurementModel \<Rightarrow> real list \<Rightarrow> real list" where
  "sensors_features P x =
     res_linear_row (meas_units P) (meas_sensors_1 P)
       (linear_row (meas_units P) (meas_sensors_0 P) x)"

text \<open>The observation features of trajectory n: they do not depend on any particle.\<close>

definition observation_features ::
  "PandaMeasurementModel \<Rightarrow> tensor \<Rightarrow> tensor \<Rightarrow> tensor \<Rightarrow> nat \<Rightarrow> real list" where
  "observation_features P img gripper_pos gripper_sensors n =
     image_features P (shape img ! 1) (shape img ! 2)
       (chunks (shape img ! 0) (shape img ! 1 * shape img ! 2) (data img) ! n)
     @ pos_features P (rows gripper_pos ! n)
     @ sensors_features P (rows gripper_sensors ! n)"

definition particle_log_likelihood ::
  "PandaMeasurementModel \<Rightarrow> real list \<Rightarrow> real list \<Rightarrow> real" where
  "particle_log_likelihood P obs_features x =
     linear_row 1 (meas_shared_4 P)
       (res_linear_row (meas_units P) (meas_shared_3 P)
         (res_linear_row (meas_units P) (meas_shared_2 P)
           (relu_row (linear_row (meas_units P) (meas_shared_0 P)
             (obs_features @ linear_row (meas_units P) (meas_state_0 P) x))))) ! 0"

text \<open>
  The log-likelihood of every particle: entry (n, m) is that of particle (n, m) under
  the observation features of trajectory n.
\<close>

definition log_likelihoods ::
  "PandaMeasurementModel \<Rightarrow> tensor \<Rightarrow> tensor \<Rightarrow> tensor \<Rightarrow> tensor \<Rightarrow> tensor" where
  "log_likelihoods P img gripper_pos gripper_sensors states =
     \<lparr>shape = [shape states ! 0, shape states ! 1],
      data = concat (map (\<lambda>n. map (\<lambda>m.
               particle_log_likelihood P (observation_features P img gripper_pos gripper_sensors n)
                 (particle states n m))
               [0..<shape states ! 1]) [0..<shape states ! 0])\<rparr>"

section \<open>Training loops\<close>

subsection \<open>Indexing, broadcasting and losses\<close>

text \<open>
  \<open>t[:, i, :]\<close> with \<open>i\<close> not negative: the tensor needs three axes at least, and
  \<open>i\<close> must be within the second.
\<close>

definition index_axis1 :: "tensor \<Rightarrow> nat \<Rightarrow> error + tensor" where
  "index_axis1 t i =
     (case shape t of
        N # T # rest \<Rightarrow>
          if rest = [] \<or> T \<le> i then Inl IndexError
          else Inr \<lparr>shape = N # rest,
                    data = concat (map (\<lambda>n. take (prod_list rest)
                                         (drop ((n * T + i) * prod_list rest) (data t)))
                                   [0..<N])\<rparr>
      | _ \<Rightarrow> Inl IndexError)"


text \<open>
  A dict of tensors, in insertion order, and \<open>utils.DictIterator(d)[:, i, :]\<close>, which
  indexes every value.
\<close>

type_synonym obs_dict = "(string \<times> tensor) list"






text \<open>The mean of the elements (torch gives NaN for none; here the quotient by 0 is 0).\<close>

definition mean :: "real list \<Rightarrow> real" where
  "mean xs = sum_list xs / real (length xs)"

text \<open>
  \<open>F.l1_loss\<close>, \<open>F.mse_loss\<close> and \<open>F.smooth_l1_loss\<close> with their default mean
  reduction, on two tensors of one shape.
\<close>

definition l1_loss :: "tensor \<Rightarrow> tensor \<Rightarrow> real" where
  "l1_loss a b = mean (map2 (\<lambda>x y. \<bar>x - y\<bar>) (data a) (data b))"

definition mse_loss :: "tensor \<Rightarrow> tensor \<Rightarrow> real" where
  "mse_loss a b = mean (map2 (\<lambda>x y. (x - y)\<^sup>2) (data a) (data b))"

definition smooth_l1_loss :: "tensor \<Rightarrow> tensor \<Rightarrow> real" where
  "smooth_l1_loss a b =
     mean (map2 (\<lambda>x y. if \<bar>x - y\<bar> < 1 then (x - y)\<^sup>2 / 2 else \<bar>x - y\<bar> - 1 / 2)
             (data a) (data b))"

text \<open>\<open>torch.mean(torch.stack(losses))\<close>: stacking an empty list raises.\<close>

definition mean_stack :: "real list \<Rightarrow> error + real" where
  "mean_stack losses = (if losses = [] then Inl RuntimeError else Inr (mean losses))"

subsection \<open>The collaborators\<close>

text \<open>
  The module \<open>dpf\<close> and the optimizer wrapper \<open>buddy\<close> are not among the sources; what
  the loops use of them is a parameter. A tensor that depends on the parameters of
  \<open>pf_model\<close> is a function of these parameters \<open>'m\<close>: that function is its autograd
  graph. The random draws of one call of the filter are named by a key \<open>'k\<close>.
\<close>

record ('m, 'k) pf_network =
  dynamics_model :: "'m \<Rightarrow> tensor \<Rightarrow> tensor \<Rightarrow> bool \<Rightarrow> error + tensor"
  pf_forward :: "'m \<Rightarrow> 'k \<Rightarrow> tensor \<Rightarrow> tensor \<Rightarrow> obs_dict \<Rightarrow> tensor \<Rightarrow> bool \<Rightarrow> bool
                 \<Rightarrow> bool option \<Rightarrow> error + tensor \<times> tensor \<times> tensor"
  gmm_loss :: "tensor \<Rightarrow> tensor \<Rightarrow> tensor \<Rightarrow> real list \<Rightarrow> error + real"

text \<open>
  The state that training changes: the parameters of \<open>pf_model\<close>, the number of
  optimizer steps of \<open>buddy\<close>, and the names of the logged metrics with their scope.
\<close>

record 'm train_state =
  params :: 'm
  optimizer_steps :: nat
  logged :: "(string \<times> string) list"

text \<open>
  \<open>buddy.minimize(loss, optimizer_name=...)\<close>: one step of the named optimizer on the
  loss, which it gets with its graph, that is as a function of the parameters.
\<close>

definition buddy_minimize ::
  "(string \<Rightarrow> ('m \<Rightarrow> error + real) \<Rightarrow> 'm \<Rightarrow> 'm) \<Rightarrow> ('m \<Rightarrow> error + real) \<Rightarrow> string
   \<Rightarrow> 'm train_state \<Rightarrow> 'm train_state" where
  "buddy_minimize optimizer loss optimizer_name st =
     st\<lparr>params := optimizer optimizer_name loss (params st),
        optimizer_steps := Suc (optimizer_steps st)\<rparr>"

definition buddy_log :: "string \<Rightarrow> string list \<Rightarrow> 'm train_state \<Rightarrow> 'm train_state" where
  "buddy_log scope names st = st\<lparr>logged := logged st @ map (Pair scope) names\<rparr>"

text \<open>
  The end of a batch: \<open>if buddy.optimizer_steps % log_interval == 0\<close> and the logging
  under it.
\<close>

definition log_if_due ::
  "int \<Rightarrow> string \<Rightarrow> string list \<Rightarrow> 'm train_state \<Rightarrow> error + 'm train_state" where
  "log_if_due log_interval scope names st =
     (if log_interval = 0 then Inl ZeroDivisionError
      else if int (optimizer_steps st) mod log_interval = 0 then Inr (buddy_log scope names st)
      else Inr st)"

subsection \<open>train_dynamics_recurrent\<close>

definition timestep_loss :: "string \<Rightarrow> tensor \<Rightarrow> tensor \<Rightarrow> error + real" where
  "timestep_loss loss_type new_states target =
     (if loss_type = ''l1'' then Inr (l1_loss new_states target)
      else if loss_type = ''l2'' then Inr (mse_loss new_states target)
      else if loss_type = ''huber'' then Inr (smooth_l1_loss target new_states)
      else if loss_type = ''peter'' then Inl AssertionError
      else Inl AssertionError)"

text \<open>
  The loop over the timesteps \<open>ts\<close> of one batch, at the parameters \<open>\<theta>\<close>; the states
  carried to the next step are the model's output, with its graph.
\<close>

fun recurrent_steps ::
  "('m, 'k) pf_network \<Rightarrow> 'm \<Rightarrow> string \<Rightarrow> tensor \<Rightarrow> tensor \<Rightarrow> nat \<Rightarrow> nat \<Rightarrow> nat list \<Rightarrow> tensor
   \<Rightarrow> real list \<Rightarrow> error + real list" where
  "recurrent_steps pf \<theta> loss_type batch_states batch_controls N state_dim [] prev_states losses =
     Inr losses"
| "recurrent_steps pf \<theta> loss_type batch_states batch_controls N state_dim (t # ts) prev_states
     losses =
     and_then (index_axis1 batch_controls t) (\<lambda>controls.
     and_then (newaxis1 2 prev_states) (\<lambda>prev3.
     and_then (dynamics_model pf \<theta> prev3 controls False) (\<lambda>out.
     let new_states = squeeze out 1 in
     and_then (assert_that (shape new_states = [N, state_dim])) (\<lambda>_.
     and_then (index_axis1 batch_states t) (\<lambda>target.
     and_then (timestep_loss loss_type new_states target) (\<lambda>timestep_loss.
     recurrent_steps pf \<theta> loss_type batch_states batch_controls N state_dim ts new_states
       (losses @ [timestep_loss])))))))"

text \<open>
  The loss of one batch (states, observations, controls) as a function of the
  parameters. The statistics \<open>label_deltas\<close> and \<open>pred_deltas\<close> are only logged and raise
  nothing.
\<close>

definition recurrent_batch_loss ::
  "('m, 'k) pf_network \<Rightarrow> string \<Rightarrow> tensor \<times> obs_dict \<times> tensor \<Rightarrow> 'm \<Rightarrow> error + real" where
  "recurrent_batch_loss pf loss_type batch \<theta> =
     (case batch of (batch_states, batch_obs, batch_controls) \<Rightarrow>
      case shape batch_controls of
        [N0, T0, control_dim] \<Rightarrow>
          (case shape batch_states of
             [N, timesteps, state_dim] \<Rightarrow>
               and_then (assert_that (shape batch_controls = [N, timesteps, control_dim])) (\<lambda>_.
               and_then (index_axis1 batch_states 0) (\<lambda>prev_states.
               and_then (recurrent_steps pf \<theta> loss_type batch_states batch_controls N state_dim
                           [1..<timesteps] prev_states []) mean_stack))
           | _ \<Rightarrow> Inl ValueError)
      | _ \<Rightarrow> Inl ValueError)"

fun recurrent_batches ::
  "('m, 'k) pf_network \<Rightarrow> (string \<Rightarrow> ('m \<Rightarrow> error + real) \<Rightarrow> 'm \<Rightarrow> 'm) \<Rightarrow> int \<Rightarrow> string
   \<Rightarrow> string \<Rightarrow> (tensor \<times> obs_dict \<times> tensor) list \<Rightarrow> 'm train_state
   \<Rightarrow> (error + unit) \<times> 'm train_state" where
  "recurrent_batches pf optimizer log_interval loss_type optim_name [] st = (Inr (), st)"
| "recurrent_batches pf optimizer log_interval loss_type optim_name (batch # batches) st =
     (case recurrent_batch_loss pf loss_type batch (params st) of
        Inl e \<Rightarrow> (Inl e, st)
      | Inr loss \<Rightarrow>
          let st = buddy_minimize optimizer (recurrent_batch_loss pf loss_type batch) optim_name st
          in case log_if_due log_interval optim_name
                    [''Training loss'', ''Label delta mean'', ''Label delta std'',
                     ''Pred delta mean'', ''Pred delta std''] st of
               Inl e \<Rightarrow> (Inl e, st)
             | Inr st \<Rightarrow>
                 recurrent_batches pf optimizer log_interval loss_type optim_name batches st)"

definition train_dynamics_recurrent ::
  "('m, 'k) pf_network \<Rightarrow> (string \<Rightarrow> ('m \<Rightarrow> error + real) \<Rightarrow> 'm \<Rightarrow> 'm)
   \<Rightarrow> (tensor \<times> obs_dict \<times> tensor) list \<Rightarrow> int \<Rightarrow> string \<Rightarrow> string \<Rightarrow> 'm train_state
   \<Rightarrow> (error + unit) \<times> 'm train_state" where
  "train_dynamics_recurrent pf optimizer dataloader log_interval loss_type optim_name st =
     (if loss_type \<notin> set [''l1'', ''l2'', ''huber'', ''peter''] then (Inl AssertionError, st)
      else recurrent_batches pf optimizer log_interval loss_type optim_name dataloader st)"

subsection \<open>train_e2e\<close>








subsection \<open>Severing the gradient path\<close>


section \<open>rollout\<close>

subsection \<open>Python lists and numpy arrays\<close>


definition py_slice :: "'a list \<Rightarrow> int \<Rightarrow> int \<Rightarrow> 'a list" where
  "py_slice xs a b =
     (let n = int (length xs);
          lo = (if a < 0 then max (a + n) 0 else min a n);
          hi = (if b < 0 then max (b + n) 0 else min b n)
      in take (nat (hi - lo)) (drop (nat lo) xs))"








subsection \<open>The driver\<close>








section \<open>Example models\<close>

text \<open>A learned dynamics model with two units, for concrete runs.\<close>

definition dyn_example :: PandaDynamicsModel where
  "dyn_example =
     \<lparr>dyn_state_noise_stddev = [0.05, 0.05],
      dyn_units = 2,
      dyn_state_0 = ([[1, 0]], [0]),
      dyn_state_1 = (([[1]], [0]), ([[1]], [0])),
      dyn_control_0 = ([[1, 0, 0, 0, 0, 0, 0]], [0]),
      dyn_control_1 = (([[1]], [0]), ([[1]], [0])),
      dyn_shared_0 = (([[1, 0], [0, 1]], [0, 0]), ([[1, 0], [0, 1]], [0, 0])),
      dyn_shared_1 = (([[1, 0], [0, 1]], [0, 0]), ([[1, 0], [0, 1]], [0, 0])),
      dyn_shared_2 = (([[1, 0], [0, 1]], [0, 0]), ([[1, 0], [0, 1]], [0, 0])),
      dyn_shared_3 = ([[1, 0], [0, 1]], [0, 0])\<rparr>"

text \<open>A measurement model with one unit, all parameters zero, for concrete runs.\<close>

definition meas_example :: PandaMeasurementModel where
  "meas_example =
     \<lparr>meas_units = 1,
      meas_image_0 = (replicate 3 [replicate 3 (replicate 3 0)], replicate 3 0),
      meas_image_2 = ((replicate 3 (replicate 3 (replicate 3 (replicate 3 0))), replicate 3 0),
                      (replicate 3 (replicate 3 (replicate 3 (replicate 3 0))), replicate 3 0)),
      meas_image_3 = ([replicate 3 (replicate 3 (replicate 3 0))], [0]),
      meas_image_6 = ([replicate 1024 0], [0]),
      meas_image_8 = (([[0]], [0]), ([[0]], [0])),
      meas_pos_0 = ([[0, 0, 0]], [0]),
      meas_pos_1 = (([[0]], [0]), ([[0]], [0])),
      meas_sensors_0 = ([[0, 0, 0, 0, 0, 0, 0]], [0]),
      meas_sensors_1 = (([[0]], [0]), ([[0]], [0])),
      meas_state_0 = ([[0, 0]], [0]),
      meas_shared_0 = ([[0, 0, 0, 0]], [0]),
      meas_shared_2 = (([[0]], [0]), ([[0]], [0])),
      meas_shared_3 = (([[0]], [0]), ([[0]], [0])),
      meas_shared_4 = ([[0]], [0])\<rparr>"

text \<open>
  A filter network with one real parameter, for concrete runs: the dynamics model returns
  its input; the filter step adds the parameter to every particle, keeps the
  log-weights and takes the first particle of each trajectory as the estimate; the
  mixture loss is the mean squared distance of the particles from the true states.
\<close>

definition pf_example :: "(real, 'k) pf_network" where
  "pf_example =
     \<lparr>dynamics_model = (\<lambda>\<theta> states controls noisy. Inr states),
      pf_forward = (\<lambda>\<theta> key particles log_weights obs controls resample noisy blackout.
         let moved = \<lparr>shape = shape particles, data = map ((+) \<theta>) (data particles)\<rparr>
         in Inr (\<lparr>shape = [shape particles ! 0, shape particles ! 2],
                  data = concat (map (\<lambda>n. particle moved n 0) [0..<shape particles ! 0])\<rparr>,
                 moved, log_weights)),
      gmm_loss = (\<lambda>particles log_weights true_states variances.
         Inr (mean (map2 (\<lambda>x y. (x - y)\<^sup>2) (data particles) (data true_states))))\<rparr>"

text \<open>An optimizer that sets the parameter to the value of the loss one unit further.\<close>

definition probe_optimizer :: "string \<Rightarrow> (real \<Rightarrow> error + real) \<Rightarrow> real \<Rightarrow> real" where
  "probe_optimizer optimizer_name loss \<theta> = (case loss (\<theta> + 1) of Inr l \<Rightarrow> l | Inl e \<Rightarrow> \<theta>)"


definition recurrent_batch_example :: "tensor \<times> obs_dict \<times> tensor" where
  "recurrent_batch_example =
     (\<lparr>shape = [1, 3, 1], data = [0, 1, 2]\<rparr>, [], \<lparr>shape = [1, 3, 1], data = [0, 0, 0]\<rparr>)"


section \<open>Lists in blocks\<close>

lemma length_chunks [simp]: "length (chunks k d xs) = k"
  by (simp add: chunks_def)

lemma nth_chunks: "i < k \<Longrightarrow> chunks k d xs ! i = take d (drop (i * d) xs)"
  by (simp add: chunks_def)

lemma chunks_Suc: "chunks (Suc k) d xs = take d xs # chunks k d (drop d xs)"
proof -
  have "[0..<Suc k] = 0 # map Suc [0..<k]"
    by (simp add: upt_conv_Cons map_Suc_upt del: upt_Suc)
  then show ?thesis
    by (simp add: chunks_def comp_def add.commute del: upt_Suc)
qed

lemma chunks_0 [simp]: "chunks 0 d xs = []"
  by (simp add: chunks_def)

lemma concat_chunks: "length xs = k * d \<Longrightarrow> concat (chunks k d xs) = xs"
proof (induction k arbitrary: xs)
  case 0
  then show ?case by simp
next
  case (Suc k)
  then have "length (drop d xs) = k * d" by simp
  with Suc.IH have "concat (chunks k d (drop d xs)) = drop d xs" by blast
  then show ?case by (simp add: chunks_Suc)
qed

lemma chunks_concat:
  "length rs = k \<Longrightarrow> \<forall>r\<in>set rs. length r = d \<Longrightarrow> chunks k d (concat rs) = rs"
proof (induction rs arbitrary: k)
  case Nil
  then show ?case by simp
next
  case (Cons r rs)
  then obtain k' where k: "k = Suc k'" "length rs = k'" by (cases k) auto
  with Cons show ?case by (simp add: chunks_Suc)
qed

lemma length_concat_uniform:
  "\<forall>r\<in>set rs. length r = d \<Longrightarrow> length (concat rs) = length rs * d"
  by (induction rs) auto

lemma set_chunks_length:
  assumes "length xs = k * d" "r \<in> set (chunks k d xs)"
  shows "length r = d"
proof -
  from assms(2) obtain i where i: "i < k" "r = take d (drop (i * d) xs)"
    by (auto simp: chunks_def)
  from i(1) have "Suc i * d \<le> k * d" by (intro mult_le_mono1) simp
  then have "d \<le> k * d - i * d" by simp
  with i assms(1) show ?thesis by simp
qed

lemma nth_chunks_length: "length xs = k * d \<Longrightarrow> i < k \<Longrightarrow> length (chunks k d xs ! i) = d"
  by (rule set_chunks_length [of xs k d]) simp_all

lemma chunks_map_blocks:
  assumes "length xs = k * d" "\<forall>r. length r = d \<longrightarrow> length (f r) = e"
  shows "chunks k e (map_blocks k d f xs) = map f (chunks k d xs)"
  unfolding map_blocks_def
  by (rule chunks_concat) (use assms in \<open>auto dest: set_chunks_length\<close>)

lemma length_map_blocks:
  assumes "length xs = k * d" "\<forall>r. length r = d \<longrightarrow> length (f r) = e"
  shows "length (map_blocks k d f xs) = k * e"
proof -
  have "\<forall>r\<in>set (map f (chunks k d xs)). length r = e"
    using assms by (auto dest: set_chunks_length)
  from length_concat_uniform [OF this] show ?thesis
    by (simp add: map_blocks_def)
qed

lemma map_blocks_comp:
  assumes "length xs = k * d" "\<forall>r. length r = d \<longrightarrow> length (f r) = e"
  shows "map_blocks k e g (map_blocks k d f xs) = map_blocks k d (\<lambda>r. g (f r)) xs"
  by (simp add: map_blocks_def [of k e] chunks_map_blocks [OF assms] comp_def)
     (simp add: map_blocks_def)

lemma map_map_blocks: "map h (map_blocks k d f xs) = map_blocks k d (\<lambda>r. map h (f r)) xs"
  by (simp add: map_blocks_def map_concat comp_def)

lemma map2_concat:
  "length as = length bs \<Longrightarrow> \<forall>i<length as. length (as ! i) = length (bs ! i) \<Longrightarrow>
   map2 f (concat as) (concat bs) = concat (map2 (map2 f) as bs)"
proof (induction as bs rule: list_induct2)
  case Nil
  then show ?case by simp
next
  case (Cons a as b bs)
  from Cons.prems have ab: "length a = length b" by auto
  from Cons.prems have "\<forall>i<length as. length (as ! i) = length (bs ! i)" by auto
  with Cons.IH have "map2 f (concat as) (concat bs) = concat (map2 (map2 f) as bs)" by blast
  with ab show ?case by simp
qed

lemma map2_map_blocks:
  assumes "length xs = k * d" "\<forall>r. length r = d \<longrightarrow> length (f r) = d"
  shows "map2 op (map_blocks k d f xs) xs = map_blocks k d (\<lambda>r. map2 op (f r) r) xs"
proof -
  let ?cs = "chunks k d xs"
  have len: "\<forall>i<length (map f ?cs). length (map f ?cs ! i) = length (?cs ! i)"
    using assms by (simp add: nth_chunks_length)
  have "map2 op (concat (map f ?cs)) (concat ?cs) = concat (map2 (map2 op) (map f ?cs) ?cs)"
    by (rule map2_concat) (use len in auto)
  also have "map2 (map2 op) (map f ?cs) ?cs = map (\<lambda>r. map2 op (f r) r) ?cs"
    by (simp add: zip_map1 zip_same_conv_map comp_def split_def)
  finally show ?thesis
    by (simp add: map_blocks_def concat_chunks [OF assms(1)])
qed

section \<open>Layers on well-formed tensors\<close>

lemma and_then_Inr [simp]: "and_then (Inr x) f = f x"
  by (simp add: and_then_def)

lemma and_then_Inl [simp]: "and_then (Inl e) f = Inl e"
  by (simp add: and_then_def)

lemma assert_that_True [simp]: "assert_that True = Inr ()"
  by (simp add: assert_that_def)

lemma assert_that_False [simp]: "assert_that False = Inl AssertionError"
  by (simp add: assert_that_def)

lemma shape_map_rows [simp]: "shape (map_rows out f t) = butlast (shape t) @ [out]"
  by (simp add: map_rows_def)

lemma shape_nn_ReLU [simp]: "shape (nn_ReLU t) = shape t"
  by (simp add: nn_ReLU_def)

lemma shape_tensor_add [simp]: "shape (tensor_add a b) = shape a"
  by (simp add: tensor_add_def)

lemma length_linear_row [simp]: "length (linear_row out p x) = out"
  by (simp add: linear_row_def)

lemma length_relu_row [simp]: "length (relu_row x) = length x"
  by (simp add: relu_row_def)

lemma length_res_linear_row [simp]: "length x = u \<Longrightarrow> length (res_linear_row u p x) = u"
  by (simp add: res_linear_row_def)

lemma prod_list_butlast: "s \<noteq> [] \<Longrightarrow> prod_list (butlast s) * last s = prod_list s"
proof -
  assume "s \<noteq> []"
  then have "s = butlast s @ [last s]" by simp
  then have "prod_list s = prod_list (butlast s @ [last s])" by simp
  then show ?thesis by simp
qed

lemma butlast_snoc_last: "s \<noteq> [] \<Longrightarrow> last s = u \<Longrightarrow> butlast s @ [u] = s"
  by auto

lemma wf_data_length:
  "wf_tensor t \<Longrightarrow> shape t \<noteq> [] \<Longrightarrow> length (data t) = prod_list (butlast (shape t)) * last (shape t)"
  by (simp add: wf_tensor_def prod_list_butlast)

lemma wf_map_rows:
  assumes "wf_tensor t" "shape t \<noteq> []" "\<forall>r. length r = last (shape t) \<longrightarrow> length (f r) = out"
  shows "wf_tensor (map_rows out f t)"
  using length_map_blocks [OF wf_data_length [OF assms(1,2)] assms(3)]
  by (simp add: wf_tensor_def map_rows_def)

lemma map_rows_comp:
  assumes "wf_tensor t" "shape t \<noteq> []" "\<forall>r. length r = last (shape t) \<longrightarrow> length (f r) = e"
  shows "map_rows out g (map_rows e f t) = map_rows out (\<lambda>r. g (f r)) t"
  using map_blocks_comp [OF wf_data_length [OF assms(1,2)] assms(3)]
  by (simp add: map_rows_def)

lemma nn_ReLU_map_rows: "nn_ReLU (map_rows out f t) = map_rows out (\<lambda>r. relu_row (f r)) t"
  by (simp add: nn_ReLU_def map_rows_def relu_row_def map_map_blocks)

lemma tensor_add_map_rows:
  assumes "wf_tensor t" "shape t \<noteq> []" "last (shape t) = u"
    "\<forall>r. length r = u \<longrightarrow> length (f r) = u"
  shows "tensor_add (map_rows u f t) t = map_rows u (\<lambda>r. map2 (+) (f r) r) t"
  using map2_map_blocks [of "data t" "prod_list (butlast (shape t))" u f "(+)"]
    wf_data_length [OF assms(1,2)] assms(3,4)
  by (simp add: tensor_add_def map_rows_def)

lemma nn_Linear_rows:
  "shape t \<noteq> [] \<Longrightarrow> last (shape t) = i \<Longrightarrow>
   nn_Linear i out p t = Inr (map_rows out (linear_row out p) t)"
  by (simp add: nn_Linear_def)

lemma nn_Linear_error:
  "shape t = [] \<or> last (shape t) \<noteq> i \<Longrightarrow> nn_Linear i out p t = Inl RuntimeError"
  by (auto simp add: nn_Linear_def)

lemma resblocks_Linear_rows:
  assumes "wf_tensor t" "shape t \<noteq> []" "last (shape t) = u"
  shows "resblocks_Linear u p t = Inr (map_rows u (res_linear_row u p) t)"
proof -
  let ?f1 = "linear_row u (fst p)"
  let ?f2 = "\<lambda>r. linear_row u (snd p) (relu_row (?f1 r))"
  have 1: "nn_Linear u u (fst p) t = Inr (map_rows u ?f1 t)"
    using assms by (simp add: nn_Linear_rows)
  have 2: "nn_ReLU (map_rows u ?f1 t) = map_rows u (\<lambda>r. relu_row (?f1 r)) t"
    by (simp add: nn_ReLU_map_rows)
  have 3: "nn_Linear u u (snd p) (map_rows u (\<lambda>r. relu_row (?f1 r)) t)
           = Inr (map_rows u (linear_row u (snd p)) (map_rows u (\<lambda>r. relu_row (?f1 r)) t))"
    by (simp add: nn_Linear_rows)
  have 4: "map_rows u (linear_row u (snd p)) (map_rows u (\<lambda>r. relu_row (?f1 r)) t)
           = map_rows u ?f2 t"
    using assms by (simp add: map_rows_comp)
  have 5: "tensor_add (map_rows u ?f2 t) t = map_rows u (\<lambda>r. map2 (+) (?f2 r) r) t"
    using assms by (simp add: tensor_add_map_rows)
  have 6: "(\<lambda>r. relu_row (map2 (+) (?f2 r) r)) = res_linear_row u p"
    by (rule ext) (simp add: res_linear_row_def)
  show ?thesis
    by (simp add: resblocks_Linear_def 1 2 3 4 5 nn_ReLU_map_rows 6)
qed

lemma resblocks_Linear_error:
  "shape t = [] \<or> last (shape t) \<noteq> u \<Longrightarrow> resblocks_Linear u p t = Inl RuntimeError"
  by (simp add: resblocks_Linear_def nn_Linear_error)

text \<open>Without well-formedness: success and the shape.\<close>

lemma resblocks_Linear_shape:
  assumes "shape t \<noteq> []" "last (shape t) = u"
  shows "\<exists>x. resblocks_Linear u p t = Inr x \<and> shape x = shape t"
  using assms by (simp add: resblocks_Linear_def nn_Linear_rows butlast_snoc_last)

section \<open>Expanding and joining\<close>

lemma concat_map_nested:
  "concat (map (\<lambda>n. concat (map (\<lambda>m. f n m) [0..<M])) [0..<N])
   = concat (map (\<lambda>i. f (i div M) (i mod M)) [0..<N * M])"
proof (induction N)
  case 0
  then show ?case by simp
next
  case (Suc N)
  have "[0..<N * M + M] = [0..<N * M] @ [N * M..<N * M + M]"
    by (rule upt_add_eq_append) simp
  then have split: "[0..<Suc N * M] = [0..<N * M] @ [N * M..<N * M + M]"
    by (simp add: add.commute)
  have eq: "[N * M..<N * M + M] = map (\<lambda>i. i + N * M) [0..<M]"
    by (simp add: map_add_upt add.commute)
  have "map (\<lambda>i. f (i div M) (i mod M)) [N * M..<N * M + M]
        = map ((\<lambda>i. f (i div M) (i mod M)) \<circ> (\<lambda>i. i + N * M)) [0..<M]"
    unfolding eq by simp
  also have "\<dots> = map (\<lambda>m. f N m) [0..<M]"
    by (rule map_cong) auto
  finally have blk: "map (\<lambda>i. f (i div M) (i mod M)) [N * M..<N * M + M]
                     = map (\<lambda>m. f N m) [0..<M]" .
  have "concat (map (\<lambda>n. concat (map (\<lambda>m. f n m) [0..<M])) [0..<Suc N])
        = concat (map (\<lambda>n. concat (map (\<lambda>m. f n m) [0..<M])) [0..<N])
          @ concat (map (\<lambda>m. f N m) [0..<M])"
    by simp
  also have "\<dots> = concat (map (\<lambda>i. f (i div M) (i mod M)) [0..<N * M])
                   @ concat (map (\<lambda>i. f (i div M) (i mod M)) [N * M..<N * M + M])"
    by (simp only: Suc.IH blk)
  also have "\<dots> = concat (map (\<lambda>i. f (i div M) (i mod M)) [0..<Suc N * M])"
    by (simp only: split map_append concat_append)
  finally show ?case .
qed

lemma map_nth_block:
  assumes "n * F + F \<le> length xs"
  shows "map (\<lambda>f. xs ! (n * F + f)) [0..<F] = take F (drop (n * F) xs)"
  by (rule nth_equalityI) (use assms in \<open>auto simp: min_def\<close>)

lemma expand_data:
  assumes "\<And>n m f. n < N \<Longrightarrow> m < M \<Longrightarrow> f < F \<Longrightarrow> g n m f = xs ! (n * F + f)"
    "length xs = N * F"
  shows "concat (map (\<lambda>n. concat (map (\<lambda>m. map (\<lambda>f. g n m f) [0..<F]) [0..<M])) [0..<N])
         = concat (map (\<lambda>i. chunks N F xs ! (i div M)) [0..<N * M])"
proof -
  have row: "map (\<lambda>f. g n m f) [0..<F] = chunks N F xs ! n" if "n < N" "m < M" for n m
  proof -
    from that have "Suc n * F \<le> N * F" by (intro mult_le_mono1) simp
    with assms(2) have le: "n * F + F \<le> length xs" by simp
    have "map (\<lambda>f. g n m f) [0..<F] = map (\<lambda>f. xs ! (n * F + f)) [0..<F]"
      by (rule map_cong) (use that assms(1) in auto)
    with map_nth_block [OF le] that show ?thesis by (simp add: nth_chunks)
  qed
  have inner: "concat (map (\<lambda>m. map (\<lambda>f. g n m f) [0..<F]) [0..<M])
               = concat (map (\<lambda>m. chunks N F xs ! n) [0..<M])" if "n < N" for n
    by (rule arg_cong [where f = concat], rule map_cong) (use that row in auto)
  have "concat (map (\<lambda>n. concat (map (\<lambda>m. map (\<lambda>f. g n m f) [0..<F]) [0..<M])) [0..<N])
        = concat (map (\<lambda>n. concat (map (\<lambda>m. chunks N F xs ! n) [0..<M])) [0..<N])"
    by (rule arg_cong [where f = concat], rule map_cong) (use inner in auto)
  also have "\<dots> = concat (map (\<lambda>i. chunks N F xs ! (i div M)) [0..<N * M])"
    by (rule concat_map_nested)
  finally show ?thesis .
qed

lemma expand3_rows:
  assumes "shape t = [N, 1, F]" "length (data t) = N * F"
  shows "expand3 t N M F =
         Inr \<lparr>shape = [N, M, F],
              data = concat (map (\<lambda>i. chunks N F (data t) ! (i div M)) [0..<N * M])\<rparr>"
proof -
  have "concat (map (\<lambda>n. concat (map (\<lambda>m. map (\<lambda>f.
           data t ! (((if N = 1 then 0 else n) * 1 + (if (1::nat) = 1 then 0 else m)) * F
                     + (if F = 1 then 0 else f))) [0..<F]) [0..<M])) [0..<N])
        = concat (map (\<lambda>i. chunks N F (data t) ! (i div M)) [0..<N * M])"
    by (rule expand_data [OF _ assms(2)]) auto
  then show ?thesis
    unfolding expand3_def assms(1) by (simp only: list.case if_True simp_thms)
qed

lemma torch_cat2:
  assumes "shape a = s @ [A]" "shape b = s @ [B]" "length s = ax"
  shows "torch_cat [a, b] ax =
         Inr \<lparr>shape = s @ [A + B],
              data = concat (map (\<lambda>i. rows a ! i @ rows b ! i) [0..<prod_list s])\<rparr>"
  using assms by (simp add: torch_cat_def)

lemma rows_map_rows:
  assumes "wf_tensor t" "shape t \<noteq> []" "\<forall>r. length r = last (shape t) \<longrightarrow> length (f r) = out"
  shows "rows (map_rows out f t) = map f (rows t)"
  using chunks_map_blocks [OF wf_data_length [OF assms(1,2)] assms(3)]
  by (simp add: rows_def map_rows_def)

section \<open>The layer stacks of the dynamics model, vector by vector\<close>

lemma linear_then_res:
  assumes "wf_tensor t" "shape t \<noteq> []" "last (shape t) = i"
  shows "and_then (nn_Linear i out p t) (resblocks_Linear out q)
         = Inr (map_rows out (\<lambda>r. res_linear_row out q (linear_row out p r)) t)"
proof -
  let ?x = "map_rows out (linear_row out p) t"
  have wf: "wf_tensor ?x"
    using assms by (intro wf_map_rows) auto
  have "resblocks_Linear out q ?x = Inr (map_rows out (res_linear_row out q) ?x)"
    by (rule resblocks_Linear_rows [OF wf]) simp_all
  also have "map_rows out (res_linear_row out q) ?x
             = map_rows out (\<lambda>r. res_linear_row out q (linear_row out p r)) t"
    using assms by (intro map_rows_comp) auto
  finally show ?thesis
    using assms by (simp add: nn_Linear_rows)
qed

lemma dyn_control_layers_rows:
  assumes "wf_tensor t" "shape t \<noteq> []" "last (shape t) = 7"
  shows "dyn_control_layers P t = Inr (map_rows (dyn_units P div 2) (control_embedding P) t)"
proof -
  have "(\<lambda>r. res_linear_row (dyn_units P div 2) (dyn_control_1 P)
               (linear_row (dyn_units P div 2) (dyn_control_0 P) r)) = control_embedding P"
    by (rule ext) (simp add: control_embedding_def)
  with linear_then_res [OF assms(1,2), of 7] assms(3) show ?thesis
    by (simp add: dyn_control_layers_def dyn_control_dim_def)
qed

lemma dyn_state_layers_rows:
  assumes "wf_tensor t" "shape t \<noteq> []" "last (shape t) = 2"
  shows "dyn_state_layers P t = Inr (map_rows (dyn_units P div 2) (state_embedding P) t)"
proof -
  have "(\<lambda>r. res_linear_row (dyn_units P div 2) (dyn_state_1 P)
               (linear_row (dyn_units P div 2) (dyn_state_0 P) r)) = state_embedding P"
    by (rule ext) (simp add: state_embedding_def)
  with linear_then_res [OF assms(1,2), of 2] assms(3) show ?thesis
    by (simp add: dyn_state_layers_def dyn_state_dim_def)
qed

lemma res_then_res:
  assumes "wf_tensor t" "shape t \<noteq> []" "last (shape t) = u"
    "\<forall>r. length r = u \<longrightarrow> length (f r) = u"
  shows "resblocks_Linear u q (map_rows u f t)
         = Inr (map_rows u (\<lambda>r. res_linear_row u q (f r)) t)"
proof -
  have wf: "wf_tensor (map_rows u f t)"
    using assms by (intro wf_map_rows) auto
  have "resblocks_Linear u q (map_rows u f t)
        = Inr (map_rows u (res_linear_row u q) (map_rows u f t))"
    by (rule resblocks_Linear_rows [OF wf]) simp_all
  also have "map_rows u (res_linear_row u q) (map_rows u f t)
             = map_rows u (\<lambda>r. res_linear_row u q (f r)) t"
    using assms by (intro map_rows_comp) auto
  finally show ?thesis .
qed

lemma dyn_shared_layers_rows:
  assumes "wf_tensor t" "shape t \<noteq> []" "last (shape t) = dyn_units P"
  shows "dyn_shared_layers P t = Inr (map_rows 2 (residual_trunk P) t)"
proof -
  let ?u = "dyn_units P"
  let ?r0 = "res_linear_row ?u (dyn_shared_0 P)"
  let ?r1 = "\<lambda>r. res_linear_row ?u (dyn_shared_1 P) (?r0 r)"
  let ?r2 = "\<lambda>r. res_linear_row ?u (dyn_shared_2 P) (?r1 r)"
  have 0: "resblocks_Linear ?u (dyn_shared_0 P) t = Inr (map_rows ?u ?r0 t)"
    using assms by (rule resblocks_Linear_rows)
  have 1: "resblocks_Linear ?u (dyn_shared_1 P) (map_rows ?u ?r0 t) = Inr (map_rows ?u ?r1 t)"
    using assms by (intro res_then_res) auto
  have 2: "resblocks_Linear ?u (dyn_shared_2 P) (map_rows ?u ?r1 t) = Inr (map_rows ?u ?r2 t)"
    using assms by (intro res_then_res) auto
  have 3: "nn_Linear ?u 2 (dyn_shared_3 P) (map_rows ?u ?r2 t)
           = Inr (map_rows 2 (linear_row 2 (dyn_shared_3 P)) (map_rows ?u ?r2 t))"
    by (simp add: nn_Linear_rows)
  have 4: "map_rows 2 (linear_row 2 (dyn_shared_3 P)) (map_rows ?u ?r2 t)
           = map_rows 2 (\<lambda>r. linear_row 2 (dyn_shared_3 P) (?r2 r)) t"
    using assms by (intro map_rows_comp) auto
  have 5: "(\<lambda>r. linear_row 2 (dyn_shared_3 P) (?r2 r)) = residual_trunk P"
    by (rule ext) (simp add: residual_trunk_def dyn_state_dim_def)
  show ?thesis
    by (simp add: dyn_shared_layers_def dyn_state_dim_def 0 1 2 3 4 5)
qed

lemma length_control_embedding [simp]:
  "length (control_embedding P c) = dyn_units P div 2"
  by (simp add: control_embedding_def)

lemma length_state_embedding [simp]:
  "length (state_embedding P c) = dyn_units P div 2"
  by (simp add: state_embedding_def)

lemma length_rows [simp]: "length (rows t) = prod_list (butlast (shape t))"
  by (simp add: rows_def)

lemma particle_rows:
  assumes "shape t = [N, M, D]" "i < N * M"
  shows "particle t (i div M) (i mod M) = chunks (N * M) D (data t) ! i"
  using assms by (simp add: particle_def nth_chunks)

lemma dyn_state_update:
  assumes wfs: "wf_tensor states_prev" and wfc: "wf_tensor controls"
    and ss: "shape states_prev = [N, M, 2]" and sc: "shape controls = [N, 7]"
    and ev: "even (dyn_units P)"
  shows "\<exists>cf cf1 cf3 sf merged.
           dyn_control_layers P controls = Inr cf \<and> shape cf = [N, dyn_units P div 2]
         \<and> newaxis1 2 cf = Inr cf1
         \<and> expand3 cf1 N M (dyn_units P div 2) = Inr cf3
         \<and> shape cf3 = [N, M, dyn_units P div 2]
         \<and> dyn_state_layers P states_prev = Inr sf \<and> shape sf = [N, M, dyn_units P div 2]
         \<and> torch_cat [cf3, sf] 2 = Inr merged \<and> shape merged = [N, M, dyn_units P]
         \<and> dyn_shared_layers P merged = Inr (predicted_delta P states_prev controls)"
proof -
  define h where "h = dyn_units P div 2"
  define cf where "cf = map_rows h (control_embedding P) controls"
  define cf1 where "cf1 = \<lparr>shape = [N, 1, h], data = data cf\<rparr>"
  define G where "G = (\<lambda>i. control_embedding P (rows controls ! (i div M))
                            @ state_embedding P (rows states_prev ! i))"
  define cf3 where "cf3 = \<lparr>shape = [N, M, h],
                    data = concat (map (\<lambda>i. chunks N h (data cf) ! (i div M)) [0..<N * M])\<rparr>"
  define sf where "sf = map_rows h (state_embedding P) states_prev"
  define merged where "merged = \<lparr>shape = [N, M, dyn_units P], data = concat (map G [0..<N * M])\<rparr>"
  have hu: "dyn_units P div 2 = h"
    by (simp add: h_def)
  have hh: "h + h = dyn_units P"
    using ev by (auto simp: h_def elim: evenE)
  have 1: "dyn_control_layers P controls = Inr cf"
    unfolding cf_def h_def by (rule dyn_control_layers_rows [OF wfc]) (simp_all add: sc)
  have 2: "shape cf = [N, h]"
    by (simp add: cf_def sc)
  have 3: "newaxis1 2 cf = Inr cf1"
    by (simp add: newaxis1_def 2 cf1_def)
  have wfcf: "wf_tensor cf"
    unfolding cf_def by (rule wf_map_rows [OF wfc]) (simp_all add: sc hu)
  then have lcf: "length (data cf) = N * h"
    by (simp add: wf_tensor_def 2)
  have 4: "expand3 cf1 N M h = Inr cf3"
    unfolding cf3_def using expand3_rows [of cf1 N h M] lcf by (simp add: cf1_def)
  have 5: "dyn_state_layers P states_prev = Inr sf"
    unfolding sf_def h_def by (rule dyn_state_layers_rows [OF wfs]) (simp_all add: ss)
  have 6: "shape sf = [N, M, h]"
    by (simp add: sf_def ss)
  have rows_cf: "chunks N h (data cf) = map (control_embedding P) (rows controls)"
    using rows_map_rows [OF wfc, of "control_embedding P" h] sc
    by (simp add: cf_def rows_def hu)
  have rows_sf: "rows sf = map (state_embedding P) (rows states_prev)"
    unfolding sf_def by (rule rows_map_rows [OF wfs]) (simp_all add: ss hu)
  have rows_cf3: "rows cf3 = map (\<lambda>i. chunks N h (data cf) ! (i div M)) [0..<N * M]"
    unfolding rows_def cf3_def
    by (simp, rule chunks_concat) (auto simp: rows_cf less_mult_imp_div_less sc hu)
  have Gi: "rows cf3 ! i @ rows sf ! i = G i" if "i < N * M" for i
    using that by (simp add: rows_cf3 rows_sf rows_cf G_def less_mult_imp_div_less sc ss)
  have "concat (map (\<lambda>i. rows cf3 ! i @ rows sf ! i) [0..<N * M]) = concat (map G [0..<N * M])"
    by (rule arg_cong [where f = concat], rule map_cong) (use Gi in auto)
  then have 7: "torch_cat [cf3, sf] 2 = Inr merged"
    using torch_cat2 [of cf3 "[N, M]" h sf h 2] 6 hh by (simp add: cf3_def merged_def)
  have lenG: "length (G i) = dyn_units P" for i
    using hh by (simp add: G_def hu)
  have wfm: "wf_tensor merged"
    using length_concat_uniform [of "map G [0..<N * M]" "dyn_units P"] lenG
    by (simp add: wf_tensor_def merged_def)
  have sh: "dyn_shared_layers P merged = Inr (map_rows 2 (residual_trunk P) merged)"
    by (rule dyn_shared_layers_rows [OF wfm]) (simp_all add: merged_def)
  have ch: "chunks (N * M) (dyn_units P) (concat (map G [0..<N * M])) = map G [0..<N * M]"
    by (rule chunks_concat) (simp_all add: lenG)
  have part: "residual_trunk P (control_embedding P (rows controls ! (i div M))
                @ state_embedding P (particle states_prev (i div M) (i mod M)))
              = residual_trunk P (G i)" if "i < N * M" for i
    using particle_rows [OF ss that] ss by (simp add: G_def rows_def)
  have "data (predicted_delta P states_prev controls)
        = concat (map (\<lambda>i. residual_trunk P (control_embedding P (rows controls ! (i div M))
                @ state_embedding P (particle states_prev (i div M) (i mod M)))) [0..<N * M])"
    by (simp add: predicted_delta_def ss concat_map_nested)
  also have "\<dots> = concat (map (\<lambda>i. residual_trunk P (G i)) [0..<N * M])"
    by (rule arg_cong [where f = concat], rule map_cong) (use part in auto)
  finally have "map_rows 2 (residual_trunk P) merged = predicted_delta P states_prev controls"
    by (simp add: map_rows_def merged_def map_blocks_def ch predicted_delta_def ss comp_def)
  with sh have 8: "dyn_shared_layers P merged = Inr (predicted_delta P states_prev controls)"
    by simp
  have "shape cf3 = [N, M, h]" "shape merged = [N, M, dyn_units P]"
    by (simp_all add: cf3_def merged_def)
  with 1 2 3 4 5 6 7 8 show ?thesis
    unfolding hu by blast
qed


lemma dyn_control_layers_shape:
  assumes "shape t \<noteq> []" "last (shape t) = 7"
  shows "\<exists>x. dyn_control_layers P t = Inr x \<and> shape x = butlast (shape t) @ [dyn_units P div 2]"
  using resblocks_Linear_shape
    [of "map_rows (dyn_units P div 2) (linear_row (dyn_units P div 2) (dyn_control_0 P)) t"
        "dyn_units P div 2" "dyn_control_1 P"] assms
  by (simp add: dyn_control_layers_def dyn_control_dim_def nn_Linear_rows)

lemma dyn_control_layers_error:
  "shape t = [] \<or> last (shape t) \<noteq> 7 \<Longrightarrow> dyn_control_layers P t = Inl RuntimeError"
  by (simp add: dyn_control_layers_def dyn_control_dim_def nn_Linear_error)

section \<open>Convolutions, image by image\<close>

lemma length_conv2d_image [simp]:
  "length (conv2d_image cin cout k p prm H W img)
   = cout * ((H + 2 * p + 1 - k) * (W + 2 * p + 1 - k))"
  by (simp add: conv2d_image_def length_concat comp_def sum_list_triv)

lemma nn_Conv2d_blocks:
  assumes "shape t = [N, cin, H, W]" "0 < H" "0 < W" "k = 3" "p = 1"
  shows "nn_Conv2d cin cout k p prm t
         = Inr \<lparr>shape = [N, cout, H, W],
                data = map_blocks N (cin * H * W) (conv2d_image cin cout k p prm H W) (data t)\<rparr>"
  using assms by (simp add: nn_Conv2d_def)

lemma nn_Conv2d_small:
  assumes "shape t = [N, C, H, W]" "H = 0 \<or> W = 0" "k = 3" "p = 1"
  shows "nn_Conv2d cin cout k p prm t = Inl RuntimeError"
  using assms by (auto simp add: nn_Conv2d_def)

lemma resblocks_Conv2d_shape:
  assumes "shape t = [N, ch, H, W]" "0 < H" "0 < W"
  shows "\<exists>x. resblocks_Conv2d ch p t = Inr x \<and> shape x = [N, ch, H, W]"
  using assms by (simp add: resblocks_Conv2d_def nn_Conv2d_blocks)

lemma resblocks_Conv2d_blocks:
  assumes "shape t = [N, ch, H, W]" "0 < H" "0 < W" "length (data t) = N * (ch * H * W)"
  shows "resblocks_Conv2d ch p t
         = Inr \<lparr>shape = [N, ch, H, W],
                data = map_blocks N (ch * H * W) (res_conv_image ch p H W) (data t)\<rparr>"
proof -
  let ?d = "ch * H * W"
  let ?f1 = "conv2d_image ch ch 3 1 (fst p) H W"
  let ?f2 = "\<lambda>r. conv2d_image ch ch 3 1 (snd p) H W (relu_row (?f1 r))"
  have len1: "\<forall>r. length r = ?d \<longrightarrow> length (relu_row (?f1 r)) = ?d"
    by (simp add: mult.assoc)
  have len2: "\<forall>r. length r = ?d \<longrightarrow> length (?f2 r) = ?d"
    by (simp add: mult.assoc)
  have 1: "nn_Conv2d ch ch 3 1 (fst p) t
           = Inr \<lparr>shape = [N, ch, H, W], data = map_blocks N ?d ?f1 (data t)\<rparr>"
    using assms by (simp add: nn_Conv2d_blocks)
  have 2: "nn_ReLU \<lparr>shape = [N, ch, H, W], data = map_blocks N ?d ?f1 (data t)\<rparr>
           = \<lparr>shape = [N, ch, H, W], data = map_blocks N ?d (\<lambda>r. relu_row (?f1 r)) (data t)\<rparr>"
    by (simp add: nn_ReLU_def relu_row_def map_map_blocks)
  have 3: "nn_Conv2d ch ch 3 1 (snd p)
             \<lparr>shape = [N, ch, H, W], data = map_blocks N ?d (\<lambda>r. relu_row (?f1 r)) (data t)\<rparr>
           = Inr \<lparr>shape = [N, ch, H, W], data = map_blocks N ?d ?f2 (data t)\<rparr>"
    using assms map_blocks_comp [OF assms(4) len1, of "conv2d_image ch ch 3 1 (snd p) H W"]
    by (simp add: nn_Conv2d_blocks)
  have 4: "tensor_add \<lparr>shape = [N, ch, H, W], data = map_blocks N ?d ?f2 (data t)\<rparr> t
           = \<lparr>shape = [N, ch, H, W],
              data = map_blocks N ?d (\<lambda>r. map2 (+) (?f2 r) r) (data t)\<rparr>"
    using map2_map_blocks [OF assms(4) len2, of "(+)"] by (simp add: tensor_add_def)
  have 5: "(\<lambda>r. relu_row (map2 (+) (?f2 r) r)) = res_conv_image ch p H W"
    by (rule ext) (simp add: res_conv_image_def)
  have 6: "nn_ReLU \<lparr>shape = [N, ch, H, W],
                 data = map_blocks N ?d (\<lambda>r. map2 (+) (?f2 r) r) (data t)\<rparr>
        = \<lparr>shape = [N, ch, H, W],
           data = map_blocks N ?d (res_conv_image ch p H W) (data t)\<rparr>"
    by (simp add: nn_ReLU_def relu_row_def map_map_blocks flip: 5)
  show ?thesis
    by (simp only: resblocks_Conv2d_def 1 2 3 4 6 and_then_Inr)
qed

text \<open>Layers on a batch whose data is given block by block.\<close>

lemma conv_on_blocks:
  assumes "length xs = N * d" "\<forall>r. length r = d \<longrightarrow> length (F r) = cin * H * W"
    "0 < H" "0 < W" "k = 3" "p = 1"
  shows "nn_Conv2d cin cout k p prm \<lparr>shape = [N, cin, H, W], data = map_blocks N d F xs\<rparr>
         = Inr \<lparr>shape = [N, cout, H, W],
                data = map_blocks N d (\<lambda>r. conv2d_image cin cout k p prm H W (F r)) xs\<rparr>"
  using assms(3-6) map_blocks_comp [OF assms(1,2)]
  by (simp add: nn_Conv2d_blocks)

lemma relu_on_blocks:
  "nn_ReLU \<lparr>shape = s, data = map_blocks N d F xs\<rparr>
   = \<lparr>shape = s, data = map_blocks N d (\<lambda>r. relu_row (F r)) xs\<rparr>"
  by (simp add: nn_ReLU_def relu_row_def map_map_blocks)

lemma resconv_on_blocks:
  assumes "length xs = N * d" "\<forall>r. length r = d \<longrightarrow> length (F r) = ch * H * W"
    "0 < H" "0 < W"
  shows "resblocks_Conv2d ch q \<lparr>shape = [N, ch, H, W], data = map_blocks N d F xs\<rparr>
         = Inr \<lparr>shape = [N, ch, H, W],
                data = map_blocks N d (\<lambda>r. res_conv_image ch q H W (F r)) xs\<rparr>"
proof -
  have len: "length (map_blocks N d F xs) = N * (ch * H * W)"
    by (rule length_map_blocks [OF assms(1,2)])
  show ?thesis
    using resblocks_Conv2d_blocks
      [of "\<lparr>shape = [N, ch, H, W], data = map_blocks N d F xs\<rparr>" N ch H W q]
      assms(3,4) len map_blocks_comp [OF assms(1,2)]
    by simp
qed

lemma linear_on_blocks:
  assumes "length xs = N * d" "\<forall>r. length r = d \<longrightarrow> length (F r) = i"
  shows "nn_Linear i out q \<lparr>shape = [N, i], data = map_blocks N d F xs\<rparr>
         = Inr \<lparr>shape = [N, out], data = map_blocks N d (\<lambda>r. linear_row out q (F r)) xs\<rparr>"
  using map_blocks_comp [OF assms]
  by (simp add: nn_Linear_rows map_rows_def)

lemma reslinear_on_blocks:
  assumes "length xs = N * d" "\<forall>r. length r = d \<longrightarrow> length (F r) = u"
  shows "resblocks_Linear u q \<lparr>shape = [N, u], data = map_blocks N d F xs\<rparr>
         = Inr \<lparr>shape = [N, u], data = map_blocks N d (\<lambda>r. res_linear_row u q (F r)) xs\<rparr>"
proof -
  have wf: "wf_tensor \<lparr>shape = [N, u], data = map_blocks N d F xs\<rparr>"
    using length_map_blocks [OF assms] by (simp add: wf_tensor_def)
  show ?thesis
    using resblocks_Linear_rows [OF wf, of u q] map_blocks_comp [OF assms]
    by (simp add: map_rows_def)
qed

lemma observation_image_layers_blocks:
  assumes hw: "H * W = 1024" and len: "length xs = N * (H * W)"
  shows "observation_image_layers P \<lparr>shape = [N, 1, H, W], data = xs\<rparr>
         = Inr \<lparr>shape = [N, meas_units P],
                data = map_blocks N (H * W) (image_features P H W) xs\<rparr>"
proof -
  let ?d = "H * W"
  let ?u = "meas_units P"
  have H: "0 < H"
    using hw by (cases H) simp_all
  have W: "0 < W"
    using hw by (cases W) simp_all
  let ?F0 = "\<lambda>r. relu_row (conv2d_image 1 3 3 1 (meas_image_0 P) H W r)"
  let ?F1 = "\<lambda>r. res_conv_image 3 (meas_image_2 P) H W (?F0 r)"
  let ?F2 = "\<lambda>r. relu_row (conv2d_image 3 1 3 1 (meas_image_3 P) H W (?F1 r))"
  let ?F3 = "\<lambda>r. relu_row (linear_row ?u (meas_image_6 P) (?F2 r))"
  let ?F4 = "\<lambda>r. res_linear_row ?u (meas_image_8 P) (?F3 r)"
  have 0: "nn_Conv2d 1 3 3 1 (meas_image_0 P) \<lparr>shape = [N, 1, H, W], data = xs\<rparr>
           = Inr \<lparr>shape = [N, 3, H, W],
                  data = map_blocks N ?d (conv2d_image 1 3 3 1 (meas_image_0 P) H W) xs\<rparr>"
    using nn_Conv2d_blocks [of "\<lparr>shape = [N, 1, H, W], data = xs\<rparr>" N 1 H W 3 1 3
        "meas_image_0 P"] H W
    by simp
  have l0: "\<forall>r. length r = ?d \<longrightarrow> length (?F0 r) = 3 * H * W"
    by simp
  have 1: "resblocks_Conv2d 3 (meas_image_2 P)
             \<lparr>shape = [N, 3, H, W], data = map_blocks N ?d ?F0 xs\<rparr>
           = Inr \<lparr>shape = [N, 3, H, W], data = map_blocks N ?d ?F1 xs\<rparr>"
    by (rule resconv_on_blocks [OF len l0 H W])
  have l1: "\<forall>r. length r = ?d \<longrightarrow> length (?F1 r) = 3 * H * W"
    by (simp add: res_conv_image_def)
  have 2: "nn_Conv2d 3 1 3 1 (meas_image_3 P)
             \<lparr>shape = [N, 3, H, W], data = map_blocks N ?d ?F1 xs\<rparr>
           = Inr \<lparr>shape = [N, 1, H, W],
                  data = map_blocks N ?d
                    (\<lambda>r. conv2d_image 3 1 3 1 (meas_image_3 P) H W (?F1 r)) xs\<rparr>"
    by (rule conv_on_blocks [OF len l1 H W]) simp_all
  have 3: "nn_Flatten \<lparr>shape = [N, 1, H, W], data = map_blocks N ?d ?F2 xs\<rparr>
           = Inr \<lparr>shape = [N, 1024], data = map_blocks N ?d ?F2 xs\<rparr>"
    by (simp add: nn_Flatten_def hw)
  have l2: "\<forall>r. length r = ?d \<longrightarrow> length (?F2 r) = 1024"
    by (simp add: hw)
  have 4: "nn_Linear 1024 ?u (meas_image_6 P)
             \<lparr>shape = [N, 1024], data = map_blocks N ?d ?F2 xs\<rparr>
           = Inr \<lparr>shape = [N, ?u],
                  data = map_blocks N ?d (\<lambda>r. linear_row ?u (meas_image_6 P) (?F2 r)) xs\<rparr>"
    by (rule linear_on_blocks [OF len l2])
  have l3: "\<forall>r. length r = ?d \<longrightarrow> length (?F3 r) = ?u"
    by simp
  have 5: "resblocks_Linear ?u (meas_image_8 P)
             \<lparr>shape = [N, ?u], data = map_blocks N ?d ?F3 xs\<rparr>
           = Inr \<lparr>shape = [N, ?u], data = map_blocks N ?d ?F4 xs\<rparr>"
    by (rule reslinear_on_blocks [OF len l3])
  have 6: "?F4 = image_features P H W"
    by (rule ext) (simp add: image_features_def)
  show ?thesis
    by (simp only: observation_image_layers_def 0 1 2 3 4 5 and_then_Inr relu_on_blocks
        flip: 6)
qed

section \<open>The layer stacks of the measurement model, vector by vector\<close>

lemma observation_image_layers_error:
  assumes sh: "shape t = [N, 1, H, W]" and hw: "H * W \<noteq> 1024"
  shows "observation_image_layers P t = Inl RuntimeError"
proof (cases "H = 0 \<or> W = 0")
  case True
  with sh have "nn_Conv2d 1 3 3 1 (meas_image_0 P) t = Inl RuntimeError"
    by (intro nn_Conv2d_small) simp_all
  then show ?thesis
    by (simp only: observation_image_layers_def and_then_Inl)
next
  case False
  then have H: "0 < H" and W: "0 < W"
    by simp_all
  define x0 where "x0 = \<lparr>shape = [N, 3, H, W],
      data = map_blocks N (1 * H * W) (conv2d_image 1 3 3 1 (meas_image_0 P) H W) (data t)\<rparr>"
  have 0: "nn_Conv2d 1 3 3 1 (meas_image_0 P) t = Inr x0"
    unfolding x0_def by (rule nn_Conv2d_blocks [OF sh H W]) simp_all
  have "shape (nn_ReLU x0) = [N, 3, H, W]"
    by (simp add: x0_def)
  from resblocks_Conv2d_shape [OF this H W] obtain x1 where
    1: "resblocks_Conv2d 3 (meas_image_2 P) (nn_ReLU x0) = Inr x1"
    and s1: "shape x1 = [N, 3, H, W]"
    by blast
  define x2 where "x2 = \<lparr>shape = [N, 1, H, W],
      data = map_blocks N (3 * H * W) (conv2d_image 3 1 3 1 (meas_image_3 P) H W) (data x1)\<rparr>"
  have 2: "nn_Conv2d 3 1 3 1 (meas_image_3 P) x1 = Inr x2"
    unfolding x2_def by (rule nn_Conv2d_blocks [OF s1 H W]) simp_all
  have 3: "nn_Flatten (nn_ReLU x2) = Inr \<lparr>shape = [N, H * W], data = data (nn_ReLU x2)\<rparr>"
    by (simp add: nn_Flatten_def x2_def)
  have 4: "nn_Linear 1024 (meas_units P) (meas_image_6 P)
             \<lparr>shape = [N, H * W], data = data (nn_ReLU x2)\<rparr> = Inl RuntimeError"
    using hw by (intro nn_Linear_error) simp
  show ?thesis
    by (simp only: observation_image_layers_def 0 1 2 3 4 and_then_Inr and_then_Inl)
qed

lemma observation_pos_layers_rows:
  assumes "wf_tensor t" "shape t \<noteq> []" "last (shape t) = 3"
  shows "observation_pos_layers P t = Inr (map_rows (meas_units P) (pos_features P) t)"
proof -
  have "(\<lambda>r. res_linear_row (meas_units P) (meas_pos_1 P)
               (linear_row (meas_units P) (meas_pos_0 P) r)) = pos_features P"
    by (rule ext) (simp add: pos_features_def)
  with linear_then_res [OF assms(1,2), of 3] assms(3) show ?thesis
    by (simp add: observation_pos_layers_def obs_pos_dim_def)
qed

lemma observation_sensors_layers_rows:
  assumes "wf_tensor t" "shape t \<noteq> []" "last (shape t) = 7"
  shows "observation_sensors_layers P t = Inr (map_rows (meas_units P) (sensors_features P) t)"
proof -
  have "(\<lambda>r. res_linear_row (meas_units P) (meas_sensors_1 P)
               (linear_row (meas_units P) (meas_sensors_0 P) r)) = sensors_features P"
    by (rule ext) (simp add: sensors_features_def)
  with linear_then_res [OF assms(1,2), of 7] assms(3) show ?thesis
    by (simp add: observation_sensors_layers_def obs_sensors_dim_def)
qed

lemma meas_shared_layers_rows:
  assumes "wf_tensor t" "shape t \<noteq> []" "last (shape t) = meas_units P * 4"
  shows "meas_shared_layers P t
         = Inr (map_rows 1 (\<lambda>r. linear_row 1 (meas_shared_4 P)
                  (res_linear_row (meas_units P) (meas_shared_3 P)
                    (res_linear_row (meas_units P) (meas_shared_2 P)
                      (relu_row (linear_row (meas_units P) (meas_shared_0 P) r))))) t)"
proof -
  let ?u = "meas_units P"
  let ?r0 = "\<lambda>r. relu_row (linear_row ?u (meas_shared_0 P) r)"
  let ?r1 = "\<lambda>r. res_linear_row ?u (meas_shared_2 P) (?r0 r)"
  let ?r2 = "\<lambda>r. res_linear_row ?u (meas_shared_3 P) (?r1 r)"
  have 0: "nn_Linear (?u * 4) ?u (meas_shared_0 P) t
           = Inr (map_rows ?u (linear_row ?u (meas_shared_0 P)) t)"
    using assms by (simp add: nn_Linear_rows)
  have wf0: "wf_tensor (map_rows ?u ?r0 t)"
    using assms by (intro wf_map_rows) auto
  have 1: "resblocks_Linear ?u (meas_shared_2 P) (map_rows ?u ?r0 t)
           = Inr (map_rows ?u (res_linear_row ?u (meas_shared_2 P)) (map_rows ?u ?r0 t))"
    by (rule resblocks_Linear_rows [OF wf0]) simp_all
  have c1: "map_rows ?u (res_linear_row ?u (meas_shared_2 P)) (map_rows ?u ?r0 t)
            = map_rows ?u ?r1 t"
    using assms by (intro map_rows_comp) auto
  have wf1: "wf_tensor (map_rows ?u ?r1 t)"
    using assms by (intro wf_map_rows) auto
  have 2: "resblocks_Linear ?u (meas_shared_3 P) (map_rows ?u ?r1 t)
           = Inr (map_rows ?u (res_linear_row ?u (meas_shared_3 P)) (map_rows ?u ?r1 t))"
    by (rule resblocks_Linear_rows [OF wf1]) simp_all
  have c2: "map_rows ?u (res_linear_row ?u (meas_shared_3 P)) (map_rows ?u ?r1 t)
            = map_rows ?u ?r2 t"
    using assms by (intro map_rows_comp) auto
  have 3: "nn_Linear ?u 1 (meas_shared_4 P) (map_rows ?u ?r2 t)
           = Inr (map_rows 1 (linear_row 1 (meas_shared_4 P)) (map_rows ?u ?r2 t))"
    by (simp add: nn_Linear_rows)
  have c3: "map_rows 1 (linear_row 1 (meas_shared_4 P)) (map_rows ?u ?r2 t)
            = map_rows 1 (\<lambda>r. linear_row 1 (meas_shared_4 P) (?r2 r)) t"
    using assms by (intro map_rows_comp) auto
  show ?thesis
    by (simp only: meas_shared_layers_def 0 1 c1 2 c2 3 c3 and_then_Inr nn_ReLU_map_rows)
qed

lemma torch_cat3:
  assumes "shape a = [N, A]" "shape b = [N, B]" "shape c = [N, C]"
  shows "torch_cat [a, b, c] 1 =
         Inr \<lparr>shape = [N, A + B + C],
              data = concat (map (\<lambda>i. rows a ! i @ rows b ! i @ rows c ! i) [0..<N])\<rparr>"
  using assms by (simp add: torch_cat_def add.assoc)

lemma concat_singletons:
  "\<forall>x\<in>set xs. length (f x) = 1 \<Longrightarrow> concat (map f xs) = map (\<lambda>x. f x ! 0) xs"
proof (induction xs)
  case Nil
  then show ?case by simp
next
  case (Cons x xs)
  then have "length (f x) = 1" by simp
  then have "f x = [f x ! 0]"
    by (cases "f x") auto
  with Cons show ?case by simp
qed

lemma length_image_features [simp]: "length (image_features P H W img) = meas_units P"
  by (simp add: image_features_def)

lemma length_pos_features [simp]: "length (pos_features P x) = meas_units P"
  by (simp add: pos_features_def)

lemma length_sensors_features [simp]: "length (sensors_features P x) = meas_units P"
  by (simp add: sensors_features_def)

lemma length_observation_features [simp]:
  "length (observation_features P img pos sens n) = meas_units P * 3"
  by (simp add: observation_features_def)

lemma measurement_forward_rows:
  assumes wfi: "wf_tensor img" and wfp: "wf_tensor gripper_pos"
    and wfg: "wf_tensor gripper_sensors" and wfs: "wf_tensor states"
    and si: "shape img = [N, H, W]" and hw: "H * W = 1024"
    and sp: "shape gripper_pos = [N, 3]" and sg: "shape gripper_sensors = [N, 7]"
    and ss: "shape states = [N, M, 2]"
    and oi: "observations ''image'' = Some img"
    and op: "observations ''gripper_pos'' = Some gripper_pos"
    and og: "observations ''gripper_sensors'' = Some gripper_sensors"
  shows "PandaMeasurement_forward P observations states
         = Inr (log_likelihoods P img gripper_pos gripper_sensors states)"
proof -
  define u where "u = meas_units P"
  define OF where "OF = observation_features P img gripper_pos gripper_sensors"
  define L where "L = linear_row u (meas_state_0 P)"
  define SH where "SH = (\<lambda>r. linear_row 1 (meas_shared_4 P)
                  (res_linear_row u (meas_shared_3 P)
                    (res_linear_row u (meas_shared_2 P)
                      (relu_row (linear_row u (meas_shared_0 P) r)))))"
  define G where "G = (\<lambda>i. OF (i div M) @ L (rows states ! i))"
  define img4 where "img4 = \<lparr>shape = [N, 1, H, W], data = data img\<rparr>"
  define fi where "fi = \<lparr>shape = [N, u],
                          data = map_blocks N (H * W) (image_features P H W) (data img)\<rparr>"
  define fp where "fp = map_rows u (pos_features P) gripper_pos"
  define fs where "fs = map_rows u (sensors_features P) gripper_sensors"
  define ofe where "ofe = \<lparr>shape = [N, u * 3], data = concat (map OF [0..<N])\<rparr>"
  define of1 where "of1 = \<lparr>shape = [N, 1, u * 3], data = data ofe\<rparr>"
  define of3 where "of3 = \<lparr>shape = [N, M, u * 3],
                            data = concat (map (\<lambda>i. OF (i div M)) [0..<N * M])\<rparr>"
  define sf where "sf = map_rows u L states"
  define merged where "merged = \<lparr>shape = [N, M, u * 4], data = concat (map G [0..<N * M])\<rparr>"
  define ll where "ll = \<lparr>shape = [N, M, 1], data = concat (map (\<lambda>i. SH (G i)) [0..<N * M])\<rparr>"
  have mu: "meas_units P = u"
    by (simp add: u_def)
  have lenOF: "length (OF n) = u * 3" for n
    by (simp add: OF_def mu)
  have leni: "length (data img) = N * (H * W)"
    using wfi by (simp add: wf_tensor_def si)
  have 1: "getitem observations ''image'' = Inr img"
    "getitem observations ''gripper_pos'' = Inr gripper_pos"
    "getitem observations ''gripper_sensors'' = Inr gripper_sensors"
    by (simp_all add: getitem_def oi op og)
  have 2: "newaxis1 3 img = Inr img4"
    by (simp add: newaxis1_def si img4_def)
  have 3: "observation_image_layers P img4 = Inr fi"
    unfolding img4_def fi_def u_def by (rule observation_image_layers_blocks [OF hw leni])
  have 4: "observation_pos_layers P gripper_pos = Inr fp"
    unfolding fp_def u_def by (rule observation_pos_layers_rows [OF wfp]) (simp_all add: sp)
  have 5: "observation_sensors_layers P gripper_sensors = Inr fs"
    unfolding fs_def u_def by (rule observation_sensors_layers_rows [OF wfg]) (simp_all add: sg)
  have rows_fi: "rows fi = map (image_features P H W) (chunks N (H * W) (data img))"
    using chunks_map_blocks [OF leni, of "image_features P H W" u]
    by (simp add: rows_def fi_def mu)
  have rows_fp: "rows fp = map (pos_features P) (rows gripper_pos)"
    unfolding fp_def by (rule rows_map_rows [OF wfp]) (simp_all add: sp mu)
  have rows_fs: "rows fs = map (sensors_features P) (rows gripper_sensors)"
    unfolding fs_def by (rule rows_map_rows [OF wfg]) (simp_all add: sg mu)
  have OFi: "rows fi ! i @ rows fp ! i @ rows fs ! i = OF i" if "i < N" for i
    using that by (simp add: rows_fi rows_fp rows_fs OF_def observation_features_def si sp sg)
  have "concat (map (\<lambda>i. rows fi ! i @ rows fp ! i @ rows fs ! i) [0..<N]) = concat (map OF [0..<N])"
    by (rule arg_cong [where f = concat], rule map_cong) (use OFi in auto)
  then have 6: "torch_cat [fi, fp, fs] (Suc 0) = Inr ofe"
    using torch_cat3 [of fi N u fp u fs u]
    by (simp add: fi_def fp_def fs_def sp sg ofe_def)
  have 7: "newaxis1 2 ofe = Inr of1"
    by (simp add: newaxis1_def ofe_def of1_def)
  have lofe: "length (data of1) = N * (u * 3)"
    using length_concat_uniform [of "map OF [0..<N]" "u * 3"] lenOF
    by (simp add: of1_def ofe_def)
  have chof: "chunks N (u * 3) (data of1) = map OF [0..<N]"
    unfolding of1_def ofe_def by (simp, rule chunks_concat) (simp_all add: lenOF)
  have "concat (map (\<lambda>i. chunks N (u * 3) (data of1) ! (i div M)) [0..<N * M])
        = concat (map (\<lambda>i. OF (i div M)) [0..<N * M])"
    by (rule arg_cong [where f = concat], rule map_cong)
       (auto simp: chof less_mult_imp_div_less)
  then have 8: "expand3 of1 N M (u * 3) = Inr of3"
    using expand3_rows [of of1 N "u * 3" M] lofe by (simp add: of1_def of3_def)
  have 9: "meas_state_layers P states = Inr sf"
    by (simp add: meas_state_layers_def meas_state_dim_def nn_Linear_rows ss sf_def L_def mu)
  have 10: "shape sf = [N, M, u]" "shape of3 = [N, M, u * 3]"
    by (simp_all add: sf_def ss of3_def)
  have rows_sf: "rows sf = map L (rows states)"
    unfolding sf_def by (rule rows_map_rows [OF wfs]) (simp_all add: ss L_def)
  have rows_of3: "rows of3 = map (\<lambda>i. OF (i div M)) [0..<N * M]"
    unfolding rows_def of3_def by (simp, rule chunks_concat) (simp_all add: lenOF)
  have Gi: "rows of3 ! i @ rows sf ! i = G i" if "i < N * M" for i
    using that by (simp add: rows_of3 rows_sf G_def ss)
  have "concat (map (\<lambda>i. rows of3 ! i @ rows sf ! i) [0..<N * M]) = concat (map G [0..<N * M])"
    by (rule arg_cong [where f = concat], rule map_cong) (use Gi in auto)
  then have 11: "torch_cat [of3, sf] 2 = Inr merged"
    using torch_cat2 [of of3 "[N, M]" "u * 3" sf u 2] 10
    by (simp add: merged_def)
  have lenG: "length (G i) = u * 4" for i
    by (simp add: G_def lenOF L_def)
  have wfm: "wf_tensor merged"
    using length_concat_uniform [of "map G [0..<N * M]" "u * 4"] lenG
    by (simp add: wf_tensor_def merged_def)
  have chm: "chunks (N * M) (u * 4) (concat (map G [0..<N * M])) = map G [0..<N * M]"
    by (rule chunks_concat) (simp_all add: lenG)
  have "meas_shared_layers P merged = Inr (map_rows 1 SH merged)"
    unfolding SH_def u_def
    by (rule meas_shared_layers_rows [OF wfm]) (simp_all add: merged_def mu)
  moreover have "map_rows 1 SH merged = ll"
    by (simp add: map_rows_def merged_def ll_def map_blocks_def chm comp_def)
  ultimately have 12: "meas_shared_layers P merged = Inr ll"
    by simp
  have 13: "squeeze ll 2 = \<lparr>shape = [N, M], data = data ll\<rparr>"
    by (simp add: squeeze_def ll_def)
  have lenSH: "length (SH r) = 1" for r
    by (simp add: SH_def)
  have pll: "SH (G i) = [particle_log_likelihood P (OF (i div M))
                           (particle states (i div M) (i mod M))]" if "i < N * M" for i
  proof -
    have "SH (G i) = [SH (G i) ! 0]"
      using lenSH [of "G i"] by (cases "SH (G i)") auto
    moreover have "particle states (i div M) (i mod M) = rows states ! i"
      using particle_rows [OF ss that] by (simp add: rows_def ss)
    ultimately show ?thesis
      by (simp add: particle_log_likelihood_def SH_def G_def L_def mu)
  qed
  have "data (log_likelihoods P img gripper_pos gripper_sensors states)
        = concat (map (\<lambda>n. concat (map (\<lambda>m. [particle_log_likelihood P (OF n)
                                                 (particle states n m)]) [0..<M])) [0..<N])"
    by (simp add: log_likelihoods_def ss OF_def)
  also have "\<dots> = concat (map (\<lambda>i. [particle_log_likelihood P (OF (i div M))
                                       (particle states (i div M) (i mod M))]) [0..<N * M])"
    by (rule concat_map_nested)
  also have "\<dots> = concat (map (\<lambda>i. SH (G i)) [0..<N * M])"
    by (rule arg_cong [where f = concat], rule map_cong) (use pll in auto)
  finally have 14: "\<lparr>shape = [N, M], data = data ll\<rparr>
                    = log_likelihoods P img gripper_pos gripper_sensors states"
    by (simp add: log_likelihoods_def ss ll_def)
  have sm: "shape merged = [N, M, u * 4]" "shape ll = [N, M, 1]"
    by (simp_all add: merged_def ll_def)
  show ?thesis
    unfolding PandaMeasurement_forward_def
    by (simp add: ss mu 1 2 3 4 5 6 7 8 9 10 11 12 13 14 sm)
qed

lemma nth_concat_map_rows:
  assumes "n < N" "m < M"
  shows "concat (map (\<lambda>n. map (\<lambda>m. g n m) [0..<M]) [0..<N]) ! (n * M + m) = g n m"
proof -
  have "concat (map (\<lambda>n. map (\<lambda>m. g n m) [0..<M]) [0..<N])
        = concat (map (\<lambda>n. concat (map (\<lambda>m. [g n m]) [0..<M])) [0..<N])"
    by (rule arg_cong [where f = concat], rule map_cong) (simp_all add: concat_map_singleton)
  also have "\<dots> = concat (map (\<lambda>i. [g (i div M) (i mod M)]) [0..<N * M])"
    by (rule concat_map_nested)
  also have "\<dots> = map (\<lambda>i. g (i div M) (i mod M)) [0..<N * M]"
    by (simp add: concat_map_singleton)
  finally have eq: "concat (map (\<lambda>n. map (\<lambda>m. g n m) [0..<M]) [0..<N])
                    = map (\<lambda>i. g (i div M) (i mod M)) [0..<N * M]" .
  from assms have "Suc n * M \<le> N * M"
    by (intro mult_le_mono1) simp
  with assms have lt: "n * M + m < N * M"
    by simp
  from assms show ?thesis
    by (simp add: eq lt)
qed

lemma nth_log_likelihoods:
  assumes "shape states = [N, M, D]" "n < N" "m < M"
  shows "data (log_likelihoods P img gripper_pos gripper_sensors states) ! (n * M + m)
         = particle_log_likelihood P (observation_features P img gripper_pos gripper_sensors n)
             (particle states n m)"
  using nth_concat_map_rows [OF assms(2,3)] assms(1)
  by (simp add: log_likelihoods_def)


lemma observation_pos_layers_ok:
  assumes "wf_tensor t" "shape t \<noteq> []" "last (shape t) = 3"
  shows "\<exists>x. observation_pos_layers P t = Inr x"
  using observation_pos_layers_rows [OF assms] by blast


section \<open>The training loops on an unsupported or broken loss\<close>






lemma timestep_loss_peter: "timestep_loss ''peter'' x y = Inl AssertionError"
  by (simp add: timestep_loss_def)

lemma recurrent_steps_peter:
  "isl (recurrent_steps pf \<theta> ''peter'' bs bc N D (t # ts) prev ls)"
  by (auto simp: and_then_def timestep_loss_peter assert_that_def Let_def split: sum.splits)

lemma recurrent_batch_loss_peter: "isl (recurrent_batch_loss pf ''peter'' batch \<theta>)"
proof -
  obtain bs bo bc where batch: "batch = (bs, bo, bc)"
    by (cases batch) auto
  have steps: "isl (and_then (recurrent_steps pf \<theta> ''peter'' bs bc N D [Suc 0..<T] prev [])
                      mean_stack)" for T N D prev
  proof (cases "[Suc 0..<T]")
    case Nil
    show ?thesis unfolding Nil by (simp add: mean_stack_def)
  next
    case (Cons t ts)
    show ?thesis
      unfolding Cons
      using recurrent_steps_peter [of pf \<theta> bs bc N D t ts prev "[]"]
      by (cases "recurrent_steps pf \<theta> ''peter'' bs bc N D (t # ts) prev []") simp_all
  qed
  show ?thesis
    unfolding recurrent_batch_loss_def batch
    by (auto simp: steps assert_that_def split: list.splits)
       (auto simp: and_then_def steps [unfolded and_then_def] split: sum.splits)
qed

lemma recurrent_batches_peter:
  "recurrent_batches pf opt li ''peter'' on (batch # batches) st
   = (Inl (projl (recurrent_batch_loss pf ''peter'' batch (params st))), st)"
  using recurrent_batch_loss_peter [of pf batch "params st"]
  by (cases "recurrent_batch_loss pf ''peter'' batch (params st)") simp_all

section \<open>The example filter, step by step\<close>


lemma index_axis1_example:
  "index_axis1 \<lparr>shape = [Suc 0, 3, Suc 0], data = [a, b, c]\<rparr> 0
   = Inr \<lparr>shape = [Suc 0, Suc 0], data = [a]\<rparr>"
  "index_axis1 \<lparr>shape = [Suc 0, 3, Suc 0], data = [a, b, c]\<rparr> (Suc 0)
   = Inr \<lparr>shape = [Suc 0, Suc 0], data = [b]\<rparr>"
  "index_axis1 \<lparr>shape = [Suc 0, 3, Suc 0], data = [a, b, c]\<rparr> 2
   = Inr \<lparr>shape = [Suc 0, Suc 0], data = [c]\<rparr>"
  by (simp_all add: index_axis1_def)







section \<open>Unrolling the end-to-end loop\<close>




section \<open>Stacking, slicing and the end time\<close>






lemma py_slice_inside:
  assumes "0 \<le> a" "a \<le> b" "b \<le> int (length xs)"
  shows "py_slice xs a b = take (nat (b - a)) (drop (nat a) xs)"
  using assms by (simp add: py_slice_def Let_def min_def)

lemma length_py_slice_inside:
  assumes "0 \<le> a" "a \<le> b" "b \<le> int (length xs)"
  shows "length (py_slice xs a b) = nat (b - a)"
  using assms by (simp add: py_slice_inside)





section \<open>The rollout loop\<close>







section \<open>The identity model without noise\<close>

text \<open>
  C8: for every previous state set of shape (N, M, D) with D the number of noise standard
  deviations, and for every controls value, the simple model without noise returns the
  previous states unchanged.
\<close>

theorem simple_forward_identity:
  "shape states_prev = [N, M, D] \<Longrightarrow> length stddev = D \<Longrightarrow>
   PandaSimple_forward stddev states_prev controls False eps = Inr states_prev"
  by (simp add: PandaSimple_forward_def)

theorem simple_forward_identity_witness:
  "PandaSimple_forward (PandaSimpleDynamicsModel_init None)
     \<lparr>shape = [1, 2, 2], data = [1, 2, 3, 4]\<rparr> ''no controls'' False (\<lambda>n m d. 1)
   = Inr \<lparr>shape = [1, 2, 2], data = [1, 2, 3, 4]\<rparr>"
proof -
  have s: "shape \<lparr>shape = [1, 2, 2], data = [1, 2, 3, 4]\<rparr> = [1, 2, 2]"
    by simp
  have d: "length (PandaSimpleDynamicsModel_init None) = 2"
    by (simp add: PandaSimpleDynamicsModel_init_def default_state_noise_stddev_def)
  show ?thesis
    by (rule simple_forward_identity [OF s d])
qed

section \<open>The learned dynamics model: delta, then noise\<close>

text \<open>
  C4: on well-formed inputs of shapes (N, M, 2) and (N, 7), with an even number of units,
  the learned dynamics model without noise returns the previous states plus the
  predicted delta, where the delta of particle (n, m) is the residual trunk applied to
  the control-feature embedding of trajectory n (the same for all its particles) joined
  with the state-feature embedding of that particle; with noise (two standard
  deviations) it returns that sum plus the noise sample, which has one draw per particle
  and state dimension.
\<close>

theorem dynamics_forward_delta:
  assumes wfs: "wf_tensor states_prev" and wfc: "wf_tensor controls"
    and ss: "shape states_prev = [N, M, 2]" and sc: "shape controls = [N, 7]"
    and ev: "even (dyn_units P)"
  shows "PandaDynamics_forward P states_prev controls False eps
           = Inr (tensor_add states_prev (predicted_delta P states_prev controls))
       \<and> (length (dyn_state_noise_stddev P) = 2 \<longrightarrow>
          PandaDynamics_forward P states_prev controls True eps
           = Inr (tensor_add (tensor_add states_prev (predicted_delta P states_prev controls))
                    (sample_normal (dyn_state_noise_stddev P) N M eps)))"
proof -
  from dyn_state_update [OF assms] obtain cf cf1 cf3 sf merged where
    "dyn_control_layers P controls = Inr cf" "shape cf = [N, dyn_units P div 2]"
    "newaxis1 2 cf = Inr cf1" "expand3 cf1 N M (dyn_units P div 2) = Inr cf3"
    "shape cf3 = [N, M, dyn_units P div 2]"
    "dyn_state_layers P states_prev = Inr sf" "shape sf = [N, M, dyn_units P div 2]"
    "torch_cat [cf3, sf] 2 = Inr merged" "shape merged = [N, M, dyn_units P]"
    "dyn_shared_layers P merged = Inr (predicted_delta P states_prev controls)"
    by blast
  then show ?thesis
    by (simp add: PandaDynamics_forward_def ss sc predicted_delta_def sample_normal_def)
qed

theorem dynamics_forward_delta_witness:
  "PandaDynamics_forward dyn_example \<lparr>shape = [1, 2, 2], data = [1, 2, 3, 4]\<rparr>
     \<lparr>shape = [1, 7], data = [1, 0, 0, 0, 0, 0, 0]\<rparr> False (\<lambda>n m d. 1)
   = Inr (tensor_add \<lparr>shape = [1, 2, 2], data = [1, 2, 3, 4]\<rparr>
            (predicted_delta dyn_example \<lparr>shape = [1, 2, 2], data = [1, 2, 3, 4]\<rparr>
               \<lparr>shape = [1, 7], data = [1, 0, 0, 0, 0, 0, 0]\<rparr>))
   \<and> PandaDynamics_forward dyn_example \<lparr>shape = [1, 2, 2], data = [1, 2, 3, 4]\<rparr>
     \<lparr>shape = [1, 7], data = [1, 0, 0, 0, 0, 0, 0]\<rparr> True (\<lambda>n m d. 1)
   = Inr (tensor_add (tensor_add \<lparr>shape = [1, 2, 2], data = [1, 2, 3, 4]\<rparr>
            (predicted_delta dyn_example \<lparr>shape = [1, 2, 2], data = [1, 2, 3, 4]\<rparr>
               \<lparr>shape = [1, 7], data = [1, 0, 0, 0, 0, 0, 0]\<rparr>))
            (sample_normal (dyn_state_noise_stddev dyn_example) 1 2 (\<lambda>n m d. 1)))"
proof -
  have wfs: "wf_tensor \<lparr>shape = [1, 2, 2], data = [1, 2, 3, 4]\<rparr>"
    by (simp add: wf_tensor_def)
  have wfc: "wf_tensor \<lparr>shape = [1, 7], data = [1, 0, 0, 0, 0, 0, 0]\<rparr>"
    by (simp add: wf_tensor_def)
  have ss: "shape \<lparr>shape = [1, 2, 2], data = [1, 2, 3, 4]\<rparr> = [1, 2, 2]"
    by simp
  have sc: "shape \<lparr>shape = [1, 7], data = [1, 0, 0, 0, 0, 0, 0]\<rparr> = [1, 7]"
    by simp
  have ev: "even (dyn_units dyn_example)"
    by (simp add: dyn_example_def)
  have len: "length (dyn_state_noise_stddev dyn_example) = 2"
    by (simp add: dyn_example_def)
  from dynamics_forward_delta [OF wfs wfc ss sc ev, of "\<lambda>n m d. 1"] len show ?thesis
    by blast
qed

section \<open>Renormalising the angle after noise\<close>

text \<open>
  C1: after a noisy propagation every particle should have \<open>cos^2 + sin^2 = 1\<close> within
  1e-6 in state dimensions 2 and 3. The simple model divides the (cos, sin) entries by
  the norm over all particles of the batch, not by the particle's own norm: with two
  particles (0, 0, 1, 0) and (0, 0, 0, 1), four standard deviations 0.05 and the draws 2
  in dimension 2 and 0 elsewhere, the result has \<open>cos^2 + sin^2\<close> 121/222 and 101/222.
\<close>

theorem simple_forward_global_norm:
  "case PandaSimple_forward [0.05, 0.05, 0.05, 0.05]
          \<lparr>shape = [1, 2, 4], data = [0, 0, 1, 0, 0, 0, 0, 1]\<rparr> ''controls'' True
          (\<lambda>n m d. if d = 2 then 2 else 0)
   of Inl e \<Rightarrow> False
    | Inr out \<Rightarrow> shape out = [1, 2, 4] \<and> cos_sin_sq out 0 0 = 121 / 222
        \<and> cos_sin_sq out 0 1 = 101 / 222
        \<and> 1 / 10 ^ 6 < \<bar>cos_sin_sq out 0 0 - 1\<bar> \<and> 1 / 10 ^ 6 < \<bar>cos_sin_sq out 0 1 - 1\<bar>"
proof -
  have u2: "[0..<2] = [0, 1]"
    by (simp add: upt_rec)
  have u4: "[0..<4] = [0, 1, 2, 3]"
    by (simp add: upt_rec)
  have r: "rows \<lparr>shape = [Suc 0, 2, 4], data = [a, b, c, d, e, f, g, h]\<rparr>
           = [[a, b, c, d], [e, f, g, h]]" for a b c d e f g h :: real
    by (simp add: rows_def chunks_def u2)
  have fwd: "PandaSimple_forward [0.05, 0.05, 0.05, 0.05]
          \<lparr>shape = [1, 2, 4], data = [0, 0, 1, 0, 0, 0, 0, 1]\<rparr> ''controls'' True
          (\<lambda>n m d. if d = 2 then 2 else 0)
        = Inr \<lparr>shape = [1, 2, 4],
               data = [0, 0, (11 / 10) / sqrt (222 / 100), 0, 0, 0,
                       (1 / 10) / sqrt (222 / 100), 1 / sqrt (222 / 100)]\<rparr>"
    by (simp add: PandaSimple_forward_def sample_normal_def u2 u4 tensor_add_def
        slice_last_def r torch_norm_def div_slice_last_def)
  show ?thesis
    apply (simp only: fwd sum.case)
    apply (simp add: cos_sin_sq_def particle_def power_divide)
    done
qed

section \<open>Controls of another batch size\<close>

text \<open>
  C2, as the code has it: the learned dynamics model fails on controls whose batch size
  is not the N of the previous states (a RuntimeError of the first linear layer when the
  controls are a matrix without 7 columns, an AssertionError otherwise); the simple
  model never reads its controls, so its result is the same for any controls.
\<close>

theorem dynamics_forward_batch_mismatch:
  assumes ss: "shape states_prev = [N, M, D]" and ne: "take 1 (shape controls) \<noteq> [N]"
  shows "PandaDynamics_forward P states_prev controls noisy eps
           = Inl (if length (shape controls) = 2 \<and> shape controls ! 1 \<noteq> 7
                  then RuntimeError else AssertionError)
       \<and> PandaSimple_forward stddev states_prev controls noisy eps
           = PandaSimple_forward stddev states_prev other_controls noisy eps"
proof
  show "PandaDynamics_forward P states_prev controls noisy eps
           = Inl (if length (shape controls) = 2 \<and> shape controls ! 1 \<noteq> 7
                  then RuntimeError else AssertionError)"
  proof (cases "length (shape controls) = 2")
    case False
    then show ?thesis by (simp add: PandaDynamics_forward_def ss)
  next
    case True
    then obtain N' C where sc: "shape controls = [N', C]"
      by (cases "shape controls"; cases "tl (shape controls)") auto
    with ne have nn: "N' \<noteq> N" by simp
    show ?thesis
    proof (cases "C = 7")
      case False
      with sc have "dyn_control_layers P controls = Inl RuntimeError"
        by (intro dyn_control_layers_error) simp
      with False show ?thesis by (simp add: PandaDynamics_forward_def ss sc)
    next
      case True
      with sc dyn_control_layers_shape [of controls P] obtain x where
        "dyn_control_layers P controls = Inr x" "shape x = [N', dyn_units P div 2]"
        by auto
      with True nn show ?thesis by (simp add: PandaDynamics_forward_def ss sc)
    qed
  qed
  show "PandaSimple_forward stddev states_prev controls noisy eps
           = PandaSimple_forward stddev states_prev other_controls noisy eps"
    by (simp add: PandaSimple_forward_def)
qed

theorem dynamics_forward_batch_mismatch_witness:
  "PandaDynamics_forward dyn_example \<lparr>shape = [1, 2, 2], data = [1, 2, 3, 4]\<rparr>
     \<lparr>shape = [2, 7], data = [1, 0, 0, 0, 0, 0, 0, 1, 0, 0, 0, 0, 0, 0]\<rparr> False (\<lambda>n m d. 1)
   = Inl AssertionError
   \<and> PandaSimple_forward [0.05, 0.05] \<lparr>shape = [1, 2, 2], data = [1, 2, 3, 4]\<rparr>
       \<lparr>shape = [2, 7], data = [1, 0, 0, 0, 0, 0, 0, 1, 0, 0, 0, 0, 0, 0]\<rparr> False (\<lambda>n m d. 1)
     = PandaSimple_forward [0.05, 0.05] \<lparr>shape = [1, 2, 2], data = [1, 2, 3, 4]\<rparr>
         ''anything'' False (\<lambda>n m d. 1)"
proof -
  have ss: "shape \<lparr>shape = [1, 2, 2], data = [1, 2, 3, 4]\<rparr> = [1, 2, 2]"
    by simp
  have ne: "take 1 (shape \<lparr>shape = [2, 7], data = [1, 0, 0, 0, 0, 0, 0, 1, 0, 0, 0, 0, 0, 0]\<rparr>)
            \<noteq> [1]"
    by simp
  from dynamics_forward_batch_mismatch
    [OF ss ne, of dyn_example False "\<lambda>n m d. 1" "[0.05, 0.05]" "''anything''"]
  show ?thesis by simp
qed

text \<open>
  The simple model, given controls of batch size 2 for states of batch size 1, raises
  nothing and returns the states.
\<close>

theorem simple_forward_ignores_controls:
  "PandaSimple_forward [0.05, 0.05] \<lparr>shape = [1, 2, 2], data = [1, 2, 3, 4]\<rparr>
     \<lparr>shape = [2, 7], data = [1, 0, 0, 0, 0, 0, 0, 1, 0, 0, 0, 0, 0, 0]\<rparr> False (\<lambda>n m d. 1)
   = Inr \<lparr>shape = [1, 2, 2], data = [1, 2, 3, 4]\<rparr>"
  by (simp add: PandaSimple_forward_def)

section \<open>Log-likelihoods of the particles\<close>

text \<open>
  C3: on well-formed inputs (images of 1024 pixels, positions (N, 3), sensors (N, 7),
  states (N, M, 2)) the measurement model returns a tensor of shape (N, M); its entry
  (n, m) is the log-likelihood of particle (n, m) under the observation features of
  trajectory n, which are computed from trajectory n's observations alone and are the
  same for all its particles. So two particles of one trajectory with equal states get
  equal log-likelihoods.
\<close>

theorem measurement_forward_log_likelihoods:
  assumes wfi: "wf_tensor img" and wfp: "wf_tensor gripper_pos"
    and wfg: "wf_tensor gripper_sensors" and wfs: "wf_tensor states"
    and si: "shape img = [N, H, W]" and hw: "H * W = 1024"
    and sp: "shape gripper_pos = [N, 3]" and sg: "shape gripper_sensors = [N, 7]"
    and ss: "shape states = [N, M, 2]"
    and oi: "observations ''image'' = Some img"
    and op: "observations ''gripper_pos'' = Some gripper_pos"
    and og: "observations ''gripper_sensors'' = Some gripper_sensors"
  shows "\<exists>out. PandaMeasurement_forward P observations states = Inr out
           \<and> shape out = [N, M]
           \<and> (\<forall>n m. n < N \<and> m < M \<longrightarrow>
                data out ! (n * M + m)
                = particle_log_likelihood P
                    (observation_features P img gripper_pos gripper_sensors n)
                    (particle states n m))
           \<and> (\<forall>n m1 m2. n < N \<and> m1 < M \<and> m2 < M
                \<and> particle states n m1 = particle states n m2 \<longrightarrow>
                data out ! (n * M + m1) = data out ! (n * M + m2))"
proof -
  let ?out = "log_likelihoods P img gripper_pos gripper_sensors states"
  have "PandaMeasurement_forward P observations states = Inr ?out"
    by (rule measurement_forward_rows [OF assms])
  moreover have "shape ?out = [N, M]"
    by (simp add: log_likelihoods_def ss)
  moreover have nth: "data ?out ! (n * M + m)
        = particle_log_likelihood P (observation_features P img gripper_pos gripper_sensors n)
            (particle states n m)" if "n < N" "m < M" for n m
    using nth_log_likelihoods [OF ss that] .
  ultimately show ?thesis
    by (intro exI [of _ ?out]) (simp add: nth)
qed

theorem measurement_forward_log_likelihoods_witness:
  "\<exists>out. PandaMeasurement_forward meas_example
            [''image'' \<mapsto> \<lparr>shape = [1, 32, 32], data = replicate 1024 0\<rparr>,
             ''gripper_pos'' \<mapsto> \<lparr>shape = [1, 3], data = [0, 0, 0]\<rparr>,
             ''gripper_sensors'' \<mapsto> \<lparr>shape = [1, 7], data = [0, 0, 0, 0, 0, 0, 0]\<rparr>]
            \<lparr>shape = [1, 2, 2], data = [1, 2, 1, 2]\<rparr> = Inr out
         \<and> shape out = [1, 2] \<and> data out ! 0 = data out ! 1"
proof -
  let ?img = "\<lparr>shape = [1, 32, 32], data = replicate 1024 (0::real)\<rparr>"
  let ?pos = "\<lparr>shape = [1, 3], data = [0, 0, 0 :: real]\<rparr>"
  let ?sens = "\<lparr>shape = [1, 7], data = [0, 0, 0, 0, 0, 0, 0 :: real]\<rparr>"
  let ?st = "\<lparr>shape = [1, 2, 2], data = [1, 2, 1, 2 :: real]\<rparr>"
  let ?obs = "[''image'' \<mapsto> ?img, ''gripper_pos'' \<mapsto> ?pos, ''gripper_sensors'' \<mapsto> ?sens]"
  have wf: "wf_tensor ?img" "wf_tensor ?pos" "wf_tensor ?sens" "wf_tensor ?st"
    by (simp_all add: wf_tensor_def)
  have sh: "shape ?img = [1, 32, 32]" "(32::nat) * 32 = 1024" "shape ?pos = [1, 3]"
    "shape ?sens = [1, 7]" "shape ?st = [1, 2, 2]"
    by simp_all
  have ob: "?obs ''image'' = Some ?img" "?obs ''gripper_pos'' = Some ?pos"
    "?obs ''gripper_sensors'' = Some ?sens"
    by simp_all
  from measurement_forward_log_likelihoods
    [of ?img ?pos ?sens ?st 1 32 32 2 ?obs meas_example, OF wf sh ob]
  obtain out where o: "PandaMeasurement_forward meas_example ?obs ?st = Inr out"
    "shape out = [1, 2]"
    and eq: "\<forall>n m1 m2. n < 1 \<and> m1 < 2 \<and> m2 < 2
                \<and> particle ?st n m1 = particle ?st n m2 \<longrightarrow>
                data out ! (n * 2 + m1) = data out ! (n * 2 + m2)"
    by blast
  have "particle ?st 0 0 = particle ?st 0 1"
    by (simp add: particle_def)
  with eq [rule_format, of 0 0 1] have "data out ! 0 = data out ! 1"
    by simp
  with o show ?thesis
    by blast
qed


section \<open>What the measurement model accepts\<close>

text \<open>
  C10, as the code has it, for states of three axes. A missing \<open>image\<close> key raises
  KeyError. An image batch of shape (B, H, W) with \<open>H * W\<close> other than 1024 raises a
  RuntimeError (whatever the other keys are). With a well-formed image of 1024 pixels, a
  missing \<open>gripper_pos\<close> key raises KeyError; with a well-formed position of 3 entries
  too, a missing \<open>gripper_sensors\<close> key raises KeyError. Every image shape with
  \<open>H * W = 1024\<close> is accepted, not only 32 x 32: with matching positions, sensors and
  states the model returns log-likelihoods of shape (N, M).
\<close>

theorem measurement_forward_errors:
  assumes st: "length (shape states) = 3"
  shows "(observations ''image'' = None \<longrightarrow>
            PandaMeasurement_forward P observations states = Inl KeyError)
       \<and> (\<forall>img B H W. observations ''image'' = Some img \<and> shape img = [B, H, W]
            \<and> H * W \<noteq> 1024 \<longrightarrow>
            PandaMeasurement_forward P observations states = Inl RuntimeError)
       \<and> (\<forall>img B H W. observations ''image'' = Some img \<and> wf_tensor img
            \<and> shape img = [B, H, W] \<and> H * W = 1024
            \<and> observations ''gripper_pos'' = None \<longrightarrow>
            PandaMeasurement_forward P observations states = Inl KeyError)
       \<and> (\<forall>img pos B H W. observations ''image'' = Some img \<and> wf_tensor img
            \<and> shape img = [B, H, W] \<and> H * W = 1024
            \<and> observations ''gripper_pos'' = Some pos \<and> wf_tensor pos
            \<and> shape pos \<noteq> [] \<and> last (shape pos) = 3
            \<and> observations ''gripper_sensors'' = None \<longrightarrow>
            PandaMeasurement_forward P observations states = Inl KeyError)
       \<and> (\<forall>img pos sens N M H W. observations ''image'' = Some img \<and> wf_tensor img
            \<and> shape img = [N, H, W] \<and> H * W = 1024
            \<and> observations ''gripper_pos'' = Some pos \<and> wf_tensor pos \<and> shape pos = [N, 3]
            \<and> observations ''gripper_sensors'' = Some sens \<and> wf_tensor sens
            \<and> shape sens = [N, 7]
            \<and> wf_tensor states \<and> shape states = [N, M, 2] \<longrightarrow>
            (\<exists>out. PandaMeasurement_forward P observations states = Inr out
                   \<and> shape out = [N, M]))"
proof (intro conjI allI impI)
  assume "observations ''image'' = None"
  then show "PandaMeasurement_forward P observations states = Inl KeyError"
    using st by (simp add: PandaMeasurement_forward_def getitem_def)
next
  fix img B H W
  assume a: "observations ''image'' = Some img \<and> shape img = [B, H, W] \<and> H * W \<noteq> 1024"
  then have ne: "H * W \<noteq> 1024"
    by blast
  have "shape \<lparr>shape = [B, 1, H, W], data = data img\<rparr> = [B, 1, H, W]"
    by simp
  from observation_image_layers_error [OF this ne]
  have "observation_image_layers P \<lparr>shape = [B, 1, H, W], data = data img\<rparr>
             = Inl RuntimeError" .
  with a show "PandaMeasurement_forward P observations states = Inl RuntimeError"
    using st by (simp add: PandaMeasurement_forward_def getitem_def newaxis1_def)
next
  fix img B H W
  assume a: "observations ''image'' = Some img \<and> wf_tensor img
            \<and> shape img = [B, H, W] \<and> H * W = 1024
            \<and> observations ''gripper_pos'' = None"
  then have "length (data img) = B * (H * W)"
    by (simp add: wf_tensor_def)
  moreover from a have "H * W = 1024"
    by blast
  ultimately have "observation_image_layers P \<lparr>shape = [B, 1, H, W], data = data img\<rparr>
        = Inr \<lparr>shape = [B, meas_units P],
               data = map_blocks B (H * W) (image_features P H W) (data img)\<rparr>"
    by (intro observation_image_layers_blocks)
  with a show "PandaMeasurement_forward P observations states = Inl KeyError"
    using st by (simp add: PandaMeasurement_forward_def getitem_def newaxis1_def)
next
  fix img pos B H W
  assume a: "observations ''image'' = Some img \<and> wf_tensor img
            \<and> shape img = [B, H, W] \<and> H * W = 1024
            \<and> observations ''gripper_pos'' = Some pos \<and> wf_tensor pos
            \<and> shape pos \<noteq> [] \<and> last (shape pos) = 3
            \<and> observations ''gripper_sensors'' = None"
  then have "length (data img) = B * (H * W)"
    by (simp add: wf_tensor_def)
  moreover from a have "H * W = 1024"
    by blast
  ultimately have i: "observation_image_layers P \<lparr>shape = [B, 1, H, W], data = data img\<rparr>
        = Inr \<lparr>shape = [B, meas_units P],
               data = map_blocks B (H * W) (image_features P H W) (data img)\<rparr>"
    by (intro observation_image_layers_blocks)
  from a observation_pos_layers_ok [of pos P] obtain x where
    "observation_pos_layers P pos = Inr x"
    by blast
  with a i show "PandaMeasurement_forward P observations states = Inl KeyError"
    using st by (simp add: PandaMeasurement_forward_def getitem_def newaxis1_def)
next
  fix img pos sens N M H W
  assume a: "observations ''image'' = Some img \<and> wf_tensor img
            \<and> shape img = [N, H, W] \<and> H * W = 1024
            \<and> observations ''gripper_pos'' = Some pos \<and> wf_tensor pos \<and> shape pos = [N, 3]
            \<and> observations ''gripper_sensors'' = Some sens \<and> wf_tensor sens
            \<and> shape sens = [N, 7]
            \<and> wf_tensor states \<and> shape states = [N, M, 2]"
  then have f: "wf_tensor img" "wf_tensor pos" "wf_tensor sens" "wf_tensor states"
    "shape img = [N, H, W]" "H * W = 1024" "shape pos = [N, 3]" "shape sens = [N, 7]"
    "shape states = [N, M, 2]" "observations ''image'' = Some img"
    "observations ''gripper_pos'' = Some pos" "observations ''gripper_sensors'' = Some sens"
    by blast+
  have "PandaMeasurement_forward P observations states
             = Inr (log_likelihoods P img pos sens states)"
    by (rule measurement_forward_rows [OF f])
  moreover from a have "shape (log_likelihoods P img pos sens states) = [N, M]"
    by (simp add: log_likelihoods_def)
  ultimately show "\<exists>out. PandaMeasurement_forward P observations states = Inr out
                         \<and> shape out = [N, M]"
    by blast
qed

theorem measurement_forward_errors_witness:
  "PandaMeasurement_forward meas_example Map.empty
     \<lparr>shape = [1, 2, 2], data = [1, 2, 1, 2]\<rparr> = Inl KeyError
   \<and> PandaMeasurement_forward meas_example
       [''image'' \<mapsto> \<lparr>shape = [1, 8, 8], data = replicate 64 0\<rparr>]
       \<lparr>shape = [1, 2, 2], data = [1, 2, 1, 2]\<rparr> = Inl RuntimeError
   \<and> PandaMeasurement_forward meas_example
       [''image'' \<mapsto> \<lparr>shape = [1, 32, 32], data = replicate 1024 0\<rparr>]
       \<lparr>shape = [1, 2, 2], data = [1, 2, 1, 2]\<rparr> = Inl KeyError
   \<and> PandaMeasurement_forward meas_example
       [''image'' \<mapsto> \<lparr>shape = [1, 32, 32], data = replicate 1024 0\<rparr>,
        ''gripper_pos'' \<mapsto> \<lparr>shape = [1, 3], data = [0, 0, 0]\<rparr>]
       \<lparr>shape = [1, 2, 2], data = [1, 2, 1, 2]\<rparr> = Inl KeyError
   \<and> (\<exists>out. PandaMeasurement_forward meas_example
       [''image'' \<mapsto> \<lparr>shape = [1, 32, 32], data = replicate 1024 0\<rparr>,
        ''gripper_pos'' \<mapsto> \<lparr>shape = [1, 3], data = [0, 0, 0]\<rparr>,
        ''gripper_sensors'' \<mapsto> \<lparr>shape = [1, 7], data = [0, 0, 0, 0, 0, 0, 0]\<rparr>]
       \<lparr>shape = [1, 2, 2], data = [1, 2, 1, 2]\<rparr> = Inr out \<and> shape out = [1, 2])"
proof -
  let ?img = "\<lparr>shape = [1, 32, 32], data = replicate 1024 (0::real)\<rparr>"
  let ?img8 = "\<lparr>shape = [1, 8, 8], data = replicate 64 (0::real)\<rparr>"
  let ?pos = "\<lparr>shape = [1, 3], data = [0, 0, 0 :: real]\<rparr>"
  let ?sens = "\<lparr>shape = [1, 7], data = [0, 0, 0, 0, 0, 0, 0 :: real]\<rparr>"
  let ?st = "\<lparr>shape = [1, 2, 2], data = [1, 2, 1, 2 :: real]\<rparr>"
  have st: "length (shape ?st) = 3"
    by simp
  have wf: "wf_tensor ?img" "wf_tensor ?pos" "wf_tensor ?sens" "wf_tensor ?st"
    by (simp_all add: wf_tensor_def)
  note E = measurement_forward_errors [OF st]
  have a: "PandaMeasurement_forward meas_example Map.empty ?st = Inl KeyError"
    using E [of Map.empty meas_example, THEN conjunct1] by simp
  have b: "PandaMeasurement_forward meas_example [''image'' \<mapsto> ?img8] ?st = Inl RuntimeError"
    using E [of "[''image'' \<mapsto> ?img8]" meas_example, THEN conjunct2, THEN conjunct1,
        rule_format, of ?img8 1 8 8]
    by simp
  have c: "PandaMeasurement_forward meas_example [''image'' \<mapsto> ?img] ?st = Inl KeyError"
    using E [of "[''image'' \<mapsto> ?img]" meas_example, THEN conjunct2, THEN conjunct2,
        THEN conjunct1, rule_format, of ?img 1 32 32] wf(1)
    by simp
  have d: "PandaMeasurement_forward meas_example
             [''image'' \<mapsto> ?img, ''gripper_pos'' \<mapsto> ?pos] ?st = Inl KeyError"
    using E [of "[''image'' \<mapsto> ?img, ''gripper_pos'' \<mapsto> ?pos]" meas_example,
        THEN conjunct2, THEN conjunct2, THEN conjunct2, THEN conjunct1, rule_format,
        of ?img 1 32 32 ?pos] wf(1,2)
    by simp
  have e: "\<exists>out. PandaMeasurement_forward meas_example
             [''image'' \<mapsto> ?img, ''gripper_pos'' \<mapsto> ?pos, ''gripper_sensors'' \<mapsto> ?sens] ?st
             = Inr out \<and> shape out = [1, 2]"
    using E [of "[''image'' \<mapsto> ?img, ''gripper_pos'' \<mapsto> ?pos, ''gripper_sensors'' \<mapsto> ?sens]"
        meas_example, THEN conjunct2, THEN conjunct2, THEN conjunct2, THEN conjunct2,
        rule_format, of ?img 1 32 32 ?pos ?sens 2] wf
    by simp
  from a b c d e show ?thesis
    by blast
qed

text \<open>
  An image of 16 x 64 pixels is accepted; and with an image of 8 x 8 pixels and no
  \<open>gripper_pos\<close> key the error is the image's RuntimeError, not a KeyError.
\<close>

theorem measurement_forward_accepts_16x64:
  "PandaMeasurement_forward meas_example
     [''image'' \<mapsto> \<lparr>shape = [1, 16, 64], data = replicate 1024 0\<rparr>,
      ''gripper_pos'' \<mapsto> \<lparr>shape = [1, 3], data = [0, 0, 0]\<rparr>,
      ''gripper_sensors'' \<mapsto> \<lparr>shape = [1, 7], data = [0, 0, 0, 0, 0, 0, 0]\<rparr>]
     \<lparr>shape = [1, 2, 2], data = [1, 2, 1, 2]\<rparr>
   = Inr (log_likelihoods meas_example \<lparr>shape = [1, 16, 64], data = replicate 1024 0\<rparr>
            \<lparr>shape = [1, 3], data = [0, 0, 0]\<rparr>
            \<lparr>shape = [1, 7], data = [0, 0, 0, 0, 0, 0, 0]\<rparr>
            \<lparr>shape = [1, 2, 2], data = [1, 2, 1, 2]\<rparr>)
   \<and> PandaMeasurement_forward meas_example
       [''image'' \<mapsto> \<lparr>shape = [1, 8, 8], data = replicate 64 0\<rparr>]
       \<lparr>shape = [1, 2, 2], data = [1, 2, 1, 2]\<rparr> = Inl RuntimeError"
proof -
  let ?img = "\<lparr>shape = [1, 16, 64], data = replicate 1024 (0::real)\<rparr>"
  let ?img8 = "\<lparr>shape = [1, 8, 8], data = replicate 64 (0::real)\<rparr>"
  let ?pos = "\<lparr>shape = [1, 3], data = [0, 0, 0 :: real]\<rparr>"
  let ?sens = "\<lparr>shape = [1, 7], data = [0, 0, 0, 0, 0, 0, 0 :: real]\<rparr>"
  let ?st = "\<lparr>shape = [1, 2, 2], data = [1, 2, 1, 2 :: real]\<rparr>"
  let ?obs = "[''image'' \<mapsto> ?img, ''gripper_pos'' \<mapsto> ?pos, ''gripper_sensors'' \<mapsto> ?sens]"
  have wf: "wf_tensor ?img" "wf_tensor ?pos" "wf_tensor ?sens" "wf_tensor ?st"
    by (simp_all add: wf_tensor_def)
  have sh: "shape ?img = [1, 16, 64]" "(16::nat) * 64 = 1024" "shape ?pos = [1, 3]"
    "shape ?sens = [1, 7]" "shape ?st = [1, 2, 2]"
    by simp_all
  have ob: "?obs ''image'' = Some ?img" "?obs ''gripper_pos'' = Some ?pos"
    "?obs ''gripper_sensors'' = Some ?sens"
    by simp_all
  have 1: "PandaMeasurement_forward meas_example ?obs ?st
           = Inr (log_likelihoods meas_example ?img ?pos ?sens ?st)"
    by (rule measurement_forward_rows [OF wf sh ob])
  have s8: "shape \<lparr>shape = [1, 1, 8, 8], data = replicate 64 (0::real)\<rparr> = [1, 1, 8, 8]"
    by simp
  have "(8::nat) * 8 \<noteq> 1024"
    by simp
  from observation_image_layers_error [OF s8 this, of meas_example]
  have 2: "PandaMeasurement_forward meas_example [''image'' \<mapsto> ?img8] ?st = Inl RuntimeError"
    by (simp add: PandaMeasurement_forward_def getitem_def newaxis1_def)
  from 1 2 show ?thesis
    by blast
qed

section \<open>Unsupported loss types\<close>





section \<open>The loss type peter\<close>

text \<open>
  C9: \<open>peter\<close> is among the accepted loss types, and with no batch the call returns. For
  every dataloader the training state is unchanged at the end, so no optimizer step is ever
  completed, and with one batch at least the call ends in an error. When the first batch
  is well shaped, has two timesteps at least and the dynamics model returns at the first
  timestep, the error is an AssertionError.
\<close>

theorem peter_loss_asserts:
  "''peter'' \<in> set [''l1'', ''l2'', ''huber'', ''peter'']
   \<and> train_dynamics_recurrent pf optimizer [] log_interval ''peter'' optim_name st = (Inr (), st)
   \<and> snd (train_dynamics_recurrent pf optimizer dataloader log_interval ''peter'' optim_name st)
       = st
   \<and> (dataloader \<noteq> [] \<longrightarrow>
        isl (fst (train_dynamics_recurrent pf optimizer dataloader log_interval ''peter''
                    optim_name st)))
   \<and> (dataloader = (batch_states, batch_obs, batch_controls) # batches
      \<and> shape batch_controls = [N, T, C] \<and> shape batch_states = [N, T, D] \<and> 2 \<le> T
      \<and> index_axis1 batch_states 0 = Inr prev_states \<and> newaxis1 2 prev_states = Inr prev3
      \<and> index_axis1 batch_controls 1 = Inr controls
      \<and> dynamics_model pf (params st) prev3 controls False = Inr out \<longrightarrow>
      train_dynamics_recurrent pf optimizer dataloader log_interval ''peter'' optim_name st
      = (Inl AssertionError, st))"
proof (intro conjI impI)
  show "''peter'' \<in> set [''l1'', ''l2'', ''huber'', ''peter'']"
    by simp
  show "train_dynamics_recurrent pf optimizer [] log_interval ''peter'' optim_name st = (Inr (), st)"
    by (simp add: train_dynamics_recurrent_def)
  show "snd (train_dynamics_recurrent pf optimizer dataloader log_interval ''peter'' optim_name st)
        = st"
    by (cases dataloader)
       (simp_all add: train_dynamics_recurrent_def recurrent_batches_peter
          del: recurrent_batches.simps(2))
next
  assume "dataloader \<noteq> []"
  then show "isl (fst (train_dynamics_recurrent pf optimizer dataloader log_interval ''peter''
                    optim_name st))"
    by (cases dataloader)
       (simp_all add: train_dynamics_recurrent_def recurrent_batches_peter
          del: recurrent_batches.simps(2))
next
  assume a: "dataloader = (batch_states, batch_obs, batch_controls) # batches
      \<and> shape batch_controls = [N, T, C] \<and> shape batch_states = [N, T, D] \<and> 2 \<le> T
      \<and> index_axis1 batch_states 0 = Inr prev_states \<and> newaxis1 2 prev_states = Inr prev3
      \<and> index_axis1 batch_controls 1 = Inr controls
      \<and> dynamics_model pf (params st) prev3 controls False = Inr out"
  then have T: "[Suc 0..<T] = Suc 0 # [Suc (Suc 0)..<T]"
    by (simp add: upt_conv_Cons)
  from a obtain target where "index_axis1 batch_states (Suc 0) = Inr target"
    by (auto simp: index_axis1_def)
  with a have "recurrent_steps pf (params st) ''peter'' batch_states batch_controls N D
                 (Suc 0 # ts) prev_states [] = Inl AssertionError" for ts
    by (auto simp: Let_def assert_that_def timestep_loss_peter and_then_def split: sum.splits)
  with a have "recurrent_batch_loss pf ''peter'' (batch_states, batch_obs, batch_controls)
                 (params st) = Inl AssertionError"
    by (simp add: recurrent_batch_loss_def T)
  with a show "train_dynamics_recurrent pf optimizer dataloader log_interval ''peter'' optim_name st
      = (Inl AssertionError, st)"
    by (simp add: train_dynamics_recurrent_def)
qed

theorem peter_loss_asserts_witness:
  "train_dynamics_recurrent (pf_example :: (real, nat \<times> nat) pf_network) probe_optimizer
     [recurrent_batch_example] 2 ''peter''
     ''dynamics_recurrent'' \<lparr>params = 1, optimizer_steps = 0, logged = []\<rparr>
   = (Inl AssertionError, \<lparr>params = 1, optimizer_steps = 0, logged = []\<rparr>)"
proof -
  let ?st = "\<lparr>params = 1 :: real, optimizer_steps = 0, logged = []\<rparr>"
  let ?bs = "\<lparr>shape = [1, 3, 1], data = [0, 1, 2 :: real]\<rparr>"
  let ?bc = "\<lparr>shape = [1, 3, 1], data = [0, 0, 0 :: real]\<rparr>"
  have h: "[recurrent_batch_example] = (?bs, [], ?bc) # []
      \<and> shape ?bc = [1, 3, 1] \<and> shape ?bs = [1, 3, 1] \<and> (2::nat) \<le> 3
      \<and> index_axis1 ?bs 0 = Inr \<lparr>shape = [1, 1], data = [0]\<rparr>
      \<and> newaxis1 2 \<lparr>shape = [1, 1], data = [0]\<rparr> = Inr \<lparr>shape = [1, 1, 1], data = [0]\<rparr>
      \<and> index_axis1 ?bc 1 = Inr \<lparr>shape = [1, 1], data = [0]\<rparr>
      \<and> dynamics_model (pf_example :: (real, nat \<times> nat) pf_network) (params ?st)
           \<lparr>shape = [1, 1, 1], data = [0]\<rparr> \<lparr>shape = [1, 1], data = [0]\<rparr> False
         = Inr \<lparr>shape = [1, 1, 1], data = [0]\<rparr>"
    by (simp add: recurrent_batch_example_def index_axis1_example newaxis1_def pf_example_def)
  from peter_loss_asserts
    [where pf = "pf_example :: (real, nat \<times> nat) pf_network" and st = ?st
       and dataloader = "[recurrent_batch_example]" and optimizer = probe_optimizer
       and log_interval = 2 and optim_name = "''dynamics_recurrent''",
     THEN conjunct2, THEN conjunct2, THEN conjunct2, THEN conjunct2, rule_format, OF h]
  show ?thesis .
qed

section \<open>The gradient path between timesteps\<close>





section \<open>The arrays returned by rollout\<close>




end
